theory Spec2Isabelle
  imports Main
begin

section \<open>Values shared by the packages\<close>

text \<open>
  Go strings and byte slices are sequences of bytes; both are modelled as \<open>string\<close>
  (a list of 8-bit characters).  Errors are values: the sentinel errors of
  the client and of the profile handler are constructors of their own,
  \<open>ErrString\<close> is an error made by \<^verbatim>\<open>errors.New\<close> or \<^verbatim>\<open>fmt.Errorf\<close> in
  this repository, \<open>ErrLib\<close> an error returned by a library call (network, JSON,
  base64, URL parsing), \<open>ErrWrap\<close> an error wrapping another one (the chain that
  \<^verbatim>\<open>errors.Is\<close> walks), and \<open>Panic\<close> a run-time panic.  A library call that
  can fail returns its error message or its value; \<open>lib\<close> and \<open>lib_opt\<close> turn the
  message into the error the caller sees, which is never one of the sentinel errors.
\<close>

type_synonym bytes = string

datatype error =
    ErrPubkeyNotFound
  | ErrNoSignature
  | ErrSignatureMismatch
  | ErrDescriptorNotFound
  | ErrString string
  | ErrLib string
  | ErrWrap string error
  | Panic string

definition lib :: "string + 'a \<Rightarrow> error + 'a" where
  "lib r = (case r of Inl msg \<Rightarrow> Inl (ErrLib msg) | Inr x \<Rightarrow> Inr x)"

definition lib_opt :: "string option \<Rightarrow> error option" where
  "lib_opt r = (case r of None \<Rightarrow> None | Some msg \<Rightarrow> Some (ErrLib msg))"

fun errors_Is :: "error \<Rightarrow> error \<Rightarrow> bool" where
  "errors_Is (ErrWrap m e) target = (ErrWrap m e = target \<or> errors_Is e target)"
| "errors_Is e target = (e = target)"

text \<open>
  \<^verbatim>\<open>strings.Cut(s, sep)\<close> for a one-byte separator: the text before the first
  occurrence of \<open>sep\<close>, the text after it, and whether \<open>sep\<close> occurs at all.
\<close>

definition strings_Cut :: "string \<Rightarrow> char \<Rightarrow> string \<times> string \<times> bool" where
  "strings_Cut s sep =
     (if sep \<in> set s
      then (takeWhile (\<lambda>c. c \<noteq> sep) s, tl (dropWhile (\<lambda>c. c \<noteq> sep) s), True)
      else (s, [], False))"

definition strings_HasPrefix :: "string \<Rightarrow> string \<Rightarrow> bool" where
  "strings_HasPrefix s p = (take (length p) s = p)"

definition slices_Contains :: "'a list \<Rightarrow> 'a \<Rightarrow> bool" where
  "slices_Contains xs x = (x \<in> set xs)"

section \<open>The pubkey store of the default client (client.go, DefaultClient)\<close>

text \<open>
  A client is a pair of callbacks over a store of type \<open>'s\<close>.  \<open>SavePubkey\<close> returns
  the error (if any) and the store it leaves; \<open>GetPubkey\<close> reads the store.
\<close>

record 's Client =
  SavePubkey :: "string \<Rightarrow> string list \<Rightarrow> bytes \<Rightarrow> 's \<Rightarrow> error option \<times> 's"
  GetPubkey :: "string \<Rightarrow> 's \<Rightarrow> error + bytes"

type_synonym sync_Map = "string \<rightharpoonup> bytes"

definition sync_Map_Store :: "string \<Rightarrow> bytes \<Rightarrow> sync_Map \<Rightarrow> sync_Map" where
  "sync_Map_Store k v m = m(k \<mapsto> v)"

definition sync_Map_Delete :: "string \<Rightarrow> sync_Map \<Rightarrow> sync_Map" where
  "sync_Map_Delete k m = m(k := None)"

definition sync_Map_Load :: "string \<Rightarrow> sync_Map \<Rightarrow> bytes option" where
  "sync_Map_Load k m = m k"

text \<open>The loop \<^verbatim>\<open>for _, name := range previousNames { defaultMap.Delete(name) }\<close>.\<close>

fun deleteNames :: "string list \<Rightarrow> sync_Map \<Rightarrow> sync_Map" where
  "deleteNames [] m = m"
| "deleteNames (name # rest) m = deleteNames rest (sync_Map_Delete name m)"

definition DefaultClient_SavePubkey ::
  "string \<Rightarrow> string list \<Rightarrow> bytes \<Rightarrow> sync_Map \<Rightarrow> error option \<times> sync_Map" where
  "DefaultClient_SavePubkey serverName previousNames pubkey defaultMap =
     (None, deleteNames previousNames (sync_Map_Store serverName pubkey defaultMap))"

definition DefaultClient_GetPubkey :: "string \<Rightarrow> sync_Map \<Rightarrow> error + bytes" where
  "DefaultClient_GetPubkey serverName defaultMap =
     (case sync_Map_Load serverName defaultMap of
        None \<Rightarrow> Inl ErrPubkeyNotFound
      | Some pubkey \<Rightarrow> Inr pubkey)"

definition DefaultClient :: "sync_Map Client" where
  "DefaultClient =
     \<lparr> SavePubkey = DefaultClient_SavePubkey, GetPubkey = DefaultClient_GetPubkey \<rparr>"

section \<open>Descriptors (types.go, and AddExtra from the file of the profile handler)\<close>

record Extra =
  Namespace :: string
  EType :: string
  Data :: bytes

record Descriptor =
  ID :: string
  Namespaces :: "string list"
  DisplayName :: string
  Username :: string
  Bio :: string
  Role :: string
  Extra :: "Extra list"

definition RoleUser :: string where
  "RoleUser = ''user''"

text \<open>
  \<^verbatim>\<open>Descriptor.AddExtra\<close>.  \<^verbatim>\<open>json.Marshal\<close> is a parameter; the descriptor is
  mutated in place, so the descriptor returned beside the error is the one the caller
  sees afterwards: the namespace is appended before the data is serialised.
\<close>

definition AddExtra ::
  "('a \<Rightarrow> string + bytes) \<Rightarrow> Descriptor \<Rightarrow> string \<Rightarrow> string \<Rightarrow> 'a
     \<Rightarrow> error option \<times> Descriptor" where
  "AddExtra json_Marshal d namespace etype data =
     (let urlStr = fst (strings_Cut namespace CHR ''#'');
          d1 = (if \<not> slices_Contains (Namespaces d) urlStr
                then d\<lparr>Namespaces := Namespaces d @ [urlStr]\<rparr> else d)
      in case lib (json_Marshal data) of
           Inl err \<Rightarrow> (Some err, d1)
         | Inr msg \<Rightarrow>
             (None, d1\<lparr>Extra := Extra d1 @
                [\<lparr>Namespace = namespace, EType = etype, Data = msg\<rparr>]\<rparr>))"

text \<open>
  A caller adding several extras one after the other, stopping at the first error:
  each entry is a namespace, a type and the data.
\<close>

fun AddExtra_all ::
  "('a \<Rightarrow> string + bytes) \<Rightarrow> Descriptor \<Rightarrow> (string \<times> string \<times> 'a) list
     \<Rightarrow> error option \<times> Descriptor" where
  "AddExtra_all json_Marshal d [] = (None, d)"
| "AddExtra_all json_Marshal d ((namespace, etype, data) # rest) =
     (case AddExtra json_Marshal d namespace etype data of
        (Some err, d') \<Rightarrow> (Some err, d')
      | (None, d') \<Rightarrow> AddExtra_all json_Marshal d' rest)"

section \<open>WebFinger (package webfinger: types.go and the lookup functions)\<close>

record Link =
  Rel :: string
  Type :: string
  Href :: string

record wf_Descriptor =
  Subject :: string
  Aliases :: "string list"
  Properties :: "(string \<times> string) list"
  Links :: "Link list"

fun linkByType :: "Link list \<Rightarrow> string \<Rightarrow> Link \<times> bool" where
  "linkByType [] linkType = (\<lparr>Rel = [], Type = [], Href = []\<rparr>, False)"
| "linkByType (link # rest) linkType =
     (if Type link = linkType then (link, True) else linkByType rest linkType)"

definition LinkByType :: "wf_Descriptor \<Rightarrow> string \<Rightarrow> Link \<times> bool" where
  "LinkByType d linkType = linkByType (Links d) linkType"

text \<open>
  The world outside the repository.  A URL keeps the fields the code reads or writes.
  An HTTP response carries its status, its headers (a key without values maps to the
  empty list; keys are written as in the source, Go compares them in canonical form on
  both sides), its body, the error that reading the body meets at its end (if any) and
  the error of closing it (if any).  The library calls are parameters: \<open>http_Get n u\<close>
  is the answer to the \<open>n\<close>-th request of the current call when it goes to \<open>u\<close>, so that
  two requests to one URL may be answered differently.
\<close>

record url =
  Scheme :: string
  Host :: string
  Path :: string
  RawQuery :: string

type_synonym url_Values = "(string \<times> string list) list"

record response =
  StatusCode :: nat
  Status :: string
  Header :: "string \<Rightarrow> string list"
  Body :: bytes
  ReadErr :: "string option"
  CloseErr :: "string option"

record serverInfoData =
  ServerName :: string
  PreviousNames :: "string list"
  PublicKey :: string

record env =
  http_Get :: "nat \<Rightarrow> string \<Rightarrow> string + response"
  url_Parse :: "string \<Rightarrow> string + url"
  url_String :: "url \<Rightarrow> string"
  url_ParseQuery :: "string \<Rightarrow> url_Values"
  url_Encode :: "url_Values \<Rightarrow> string"
  url_QueryEscape :: "string \<Rightarrow> string"
  base64_DecodeString :: "string \<Rightarrow> string + bytes"
  json_Unmarshal_info :: "bytes \<Rightarrow> string + serverInfoData"
  json_Unmarshal_descriptor :: "bytes \<Rightarrow> string + Descriptor"
  json_Unmarshal_all :: "bytes \<Rightarrow> string + (string \<times> Descriptor) list"
  json_Decode_info :: "bytes \<Rightarrow> string option \<Rightarrow> string + serverInfoData"
  json_Decode_jrd :: "bytes \<Rightarrow> string option \<Rightarrow> string + wf_Descriptor"
  ed25519_verify :: "bytes \<Rightarrow> bytes \<Rightarrow> bytes \<Rightarrow> bool"

text \<open>\<^verbatim>\<open>webfinger.Lookup\<close>: one request, the status check, the JSON decoder on the body.\<close>

definition wf_Lookup :: "env \<Rightarrow> nat \<Rightarrow> string \<Rightarrow> string \<Rightarrow> error + wf_Descriptor" where
  "wf_Lookup e n resource server =
     (let u = \<lparr>Scheme = ''http'', Host = server, Path = ''/.well-known/webfinger'',
               RawQuery = ''resource='' @ url_QueryEscape e resource\<rparr>
      in case lib (http_Get e n (url_String e u)) of
           Inl err \<Rightarrow> Inl err
         | Inr res \<Rightarrow>
             if StatusCode res \<noteq> 200 then Inl (ErrString (Status res))
             else lib (json_Decode_jrd e (Body res) (ReadErr res)))"

text \<open>
  \<^verbatim>\<open>webfinger.LookupAcct\<close>.  The function it ends in, \<^verbatim>\<open>Lookup(id, server)\<close>, is
  an argument here, so that the resource and the server handed to it can be observed;
  the client below passes \<open>wf_Lookup\<close>.  The parameter \<^verbatim>\<open>id\<close> is written \<open>ident\<close>
  (\<open>id\<close> is the identity function of HOL).
\<close>

definition LookupAcct :: "(string \<Rightarrow> string \<Rightarrow> error + 'a) \<Rightarrow> string \<Rightarrow> error + 'a" where
  "LookupAcct Lookup ident =
     (case strings_Cut ident CHR ''@'' of
        (_, server, ok) \<Rightarrow>
          if \<not> ok then Inl (ErrString ''invalid acct id'')
          else Lookup (if \<not> strings_HasPrefix ident ''acct:'' then ''acct:'' @ ident
                       else ident) server)"

section \<open>The verifying client (client.go)\<close>

definition responseSizeLimit :: nat where
  "responseSizeLimit = 32000000"

text \<open>\<^verbatim>\<open>http.Header.Get\<close>: the first value of the key, or the empty string.\<close>

definition Header_Get :: "(string \<Rightarrow> string list) \<Rightarrow> string \<Rightarrow> string" where
  "Header_Get h key = (case h key of [] \<Rightarrow> [] | v # _ \<Rightarrow> v)"

text \<open>
  \<^verbatim>\<open>io.ReadAll(io.LimitReader(res.Body, responseSizeLimit))\<close>: a body that reaches the
  limit is cut there and its end is never read; a shorter body is read to its end,
  where the read error of the response (if any) shows.
\<close>

definition readAllLimited :: "response \<Rightarrow> error + bytes" where
  "readAllLimited res =
     (if responseSizeLimit \<le> length (Body res) then Inr (take responseSizeLimit (Body res))
      else case lib_opt (ReadErr res) of None \<Rightarrow> Inr (Body res) | Some err \<Rightarrow> Inl err)"

definition checkResp :: "response \<Rightarrow> string \<Rightarrow> error option" where
  "checkResp res opName =
     (if StatusCode res \<noteq> 200 then Some (ErrString (opName @ '': '' @ Status res))
      else None)"

definition getSignature :: "env \<Rightarrow> response \<Rightarrow> error + bytes" where
  "getSignature e res =
     (let sigStr = Header_Get (Header res) ''X-ProfileFed-Sig''
      in if sigStr = [] then Inl ErrNoSignature else lib (base64_DecodeString e sigStr))"

fun decodeSigs :: "env \<Rightarrow> string list \<Rightarrow> bytes list" where
  "decodeSigs e [] = []"
| "decodeSigs e (sigStr # rest) =
     (case base64_DecodeString e sigStr of
        Inl err \<Rightarrow> decodeSigs e rest
      | Inr sig \<Rightarrow> sig # decodeSigs e rest)"

definition getPrevSignatures :: "env \<Rightarrow> response \<Rightarrow> bytes list" where
  "getPrevSignatures e res = decodeSigs e (Header res ''X-ProfileFed-Previous'')"

definition getServerInfo ::
  "env \<Rightarrow> nat \<Rightarrow> string \<Rightarrow> string \<Rightarrow> error + (bytes \<times> bytes \<times> bytes list)" where
  "getServerInfo e n scheme host =
     (let serverInfoURL =
            \<lparr>Scheme = scheme, Host = host, Path = ''/_profilefed/server'', RawQuery = []\<rparr>
      in case lib (http_Get e n (url_String e serverInfoURL)) of
           Inl err \<Rightarrow> Inl err
         | Inr res \<Rightarrow>
            (case checkResp res ''getServerInfo'' of
               Some err \<Rightarrow> Inl err
             | None \<Rightarrow>
                (case getSignature e res of
                   Inl err \<Rightarrow> Inl err
                 | Inr sig \<Rightarrow>
                    (case readAllLimited res of
                       Inl err \<Rightarrow> Inl err
                     | Inr data \<Rightarrow> Inr (data, sig, getPrevSignatures e res)))))"

text \<open>
  \<^verbatim>\<open>ed25519.Verify\<close> panics on a public key that is not 32 bytes long and otherwise
  answers; the answer itself is the parameter \<open>ed25519_verify\<close>.
\<close>

definition PublicKeySize :: nat where
  "PublicKeySize = 32"

definition ed25519_Verify :: "env \<Rightarrow> bytes \<Rightarrow> bytes \<Rightarrow> bytes \<Rightarrow> error + bool" where
  "ed25519_Verify e publicKey message sig =
     (if length publicKey \<noteq> PublicKeySize then Inl (Panic ''ed25519: bad public key length'')
      else Inr (ed25519_verify e publicKey message sig))"

text \<open>
  The rename audit of \<^verbatim>\<open>lookup\<close> (client.go, lines 148 to 171).  \<open>prevSigLoop\<close> is the
  inner loop over the previous signatures: its \<^verbatim>\<open>break\<close> leaves the inner loop only,
  and the statement after it returns \<^verbatim>\<open>ErrSignatureMismatch\<close> in every case.  The
  \<^verbatim>\<open>break\<close> after the first verification leaves the loop over the names, so that
  the names after it are not looked at.  The result is the error returned, if any.
\<close>

fun prevSigLoop :: "env \<Rightarrow> bytes \<Rightarrow> bytes \<Rightarrow> bytes list \<Rightarrow> error option" where
  "prevSigLoop e pubkey data [] = None"
| "prevSigLoop e pubkey data (prevSig # rest) =
     (case ed25519_Verify e pubkey data prevSig of
        Inl p \<Rightarrow> Some p
      | Inr True \<Rightarrow> None
      | Inr False \<Rightarrow> prevSigLoop e pubkey data rest)"

fun renameAudit ::
  "'s Client \<Rightarrow> env \<Rightarrow> string list \<Rightarrow> bytes \<Rightarrow> bytes \<Rightarrow> bytes list \<Rightarrow> 's \<Rightarrow> error option" where
  "renameAudit c e [] data sig prevSigs s = None"
| "renameAudit c e (prevName # rest) data sig prevSigs s =
     (case GetPubkey c prevName s of
        Inl err \<Rightarrow>
          if errors_Is err ErrPubkeyNotFound then renameAudit c e rest data sig prevSigs s
          else Some err
      | Inr pubkey \<Rightarrow>
         (case ed25519_Verify e pubkey data sig of
            Inl p \<Rightarrow> Some p
          | Inr True \<Rightarrow> None
          | Inr False \<Rightarrow>
             (case prevSigLoop e pubkey data prevSigs of
                Some p \<Rightarrow> Some p
              | None \<Rightarrow> Some ErrSignatureMismatch)))"

text \<open>
  First contact (lines 134 to 182): the branch taken when the store has no key for the
  host.  It returns the key it saved.
\<close>

definition firstContact :: "'s Client \<Rightarrow> env \<Rightarrow> nat \<Rightarrow> url \<Rightarrow> 's \<Rightarrow> (error + bytes) \<times> 's" where
  "firstContact c e n pfdURL s =
     (case getServerInfo e n (Scheme pfdURL) (Host pfdURL) of
        Inl err \<Rightarrow> (Inl err, s)
      | Inr (data, sig, prevSigs) \<Rightarrow>
         (case lib (json_Unmarshal_info e data) of
            Inl err \<Rightarrow> (Inl err, s)
          | Inr info \<Rightarrow>
             (case (if length (PreviousNames info) > 0
                    then renameAudit c e (PreviousNames info) data sig prevSigs s
                    else None) of
                Some err \<Rightarrow> (Inl err, s)
              | None \<Rightarrow>
                 (case lib (base64_DecodeString e (PublicKey info)) of
                    Inl err \<Rightarrow> (Inl err, s)
                  | Inr pubkey \<Rightarrow>
                     (case SavePubkey c (Host pfdURL) (PreviousNames info) pubkey s of
                        (Some err, s') \<Rightarrow> (Inl err, s')
                      | (None, s') \<Rightarrow> (Inr pubkey, s'))))))"

text \<open>
  Lines 131 to 185: the key for the host, whether it was saved in this call, and the
  number of requests made so far.
\<close>

definition getKey ::
  "'s Client \<Rightarrow> env \<Rightarrow> nat \<Rightarrow> url \<Rightarrow> 's \<Rightarrow> (error + (bytes \<times> bool \<times> nat)) \<times> 's" where
  "getKey c e n pfdURL s =
     (case GetPubkey c (Host pfdURL) s of
        Inl err \<Rightarrow>
          if errors_Is err ErrPubkeyNotFound
          then (case firstContact c e n pfdURL s of
                  (Inl err', s') \<Rightarrow> (Inl err', s')
                | (Inr pubkey, s') \<Rightarrow> (Inr (pubkey, True, Suc n), s'))
          else (Inl err, s)
      | Inr pubkey \<Rightarrow> (Inr (pubkey, False, n), s))"

text \<open>Lines 187 to 193: the query of the profile URL.  \<^verbatim>\<open>url.Values.Set\<close> first.\<close>

definition values_Set :: "url_Values \<Rightarrow> string \<Rightarrow> string \<Rightarrow> url_Values" where
  "values_Set q key v = (key, [v]) # filter (\<lambda>p. fst p \<noteq> key) q"

definition profileURL :: "env \<Rightarrow> url \<Rightarrow> string \<Rightarrow> bool \<Rightarrow> url" where
  "profileURL e pfdURL ident all =
     (let q = url_ParseQuery e (RawQuery pfdURL);
          q' = (if all then values_Set q ''all'' ''1''
                else if ident \<noteq> [] then values_Set q ''id'' ident
                else q)
      in pfdURL\<lparr>RawQuery := url_Encode e q'\<rparr>)"

text \<open>
  Lines 195 to 217: the profile request to the URL given as a string; it returns the
  body and the signature.
\<close>

definition fetchProfile :: "env \<Rightarrow> nat \<Rightarrow> string \<Rightarrow> error + (bytes \<times> bytes)" where
  "fetchProfile e n pfdURL =
     (case lib (http_Get e n pfdURL) of
        Inl err \<Rightarrow> Inl err
      | Inr res \<Rightarrow>
         (case checkResp res ''getProfileDescriptor'' of
            Some err \<Rightarrow> Inl err
          | None \<Rightarrow>
             (case readAllLimited res of
                Inl err \<Rightarrow> Inl err
              | Inr data \<Rightarrow>
                 (case lib_opt (CloseErr res) of
                    Some err \<Rightarrow> Inl err
                  | None \<Rightarrow>
                     (case getSignature e res of
                        Inl err \<Rightarrow> Inl err
                      | Inr sig \<Rightarrow> Inr (data, sig))))))"

text \<open>
  Lines 226 to 271: the rotation ceremony, entered when the key does not verify the
  profile and was not saved in this call.  \<open>continuity\<close> is the loop that sets
  \<^verbatim>\<open>verified\<close>.  The verification after it is written as in the source, with the
  signature of the server info in the place of the message and the body in the place
  of the signature.
\<close>

fun continuity :: "env \<Rightarrow> bytes \<Rightarrow> bytes \<Rightarrow> bytes list \<Rightarrow> error + bool" where
  "continuity e pubkey serverData [] = Inr False"
| "continuity e pubkey serverData (sig # sigs) =
     (case ed25519_Verify e pubkey serverData sig of
        Inl p \<Rightarrow> Inl p
      | Inr True \<Rightarrow> Inr True
      | Inr False \<Rightarrow> continuity e pubkey serverData sigs)"

definition rotation ::
  "'s Client \<Rightarrow> env \<Rightarrow> nat \<Rightarrow> url \<Rightarrow> bytes \<Rightarrow> bytes \<Rightarrow> bytes \<Rightarrow> 's \<Rightarrow> error option \<times> 's" where
  "rotation c e n pfdURL pubkey data sig s =
     (case getServerInfo e n (Scheme pfdURL) (Host pfdURL) of
        Inl err \<Rightarrow> (Some err, s)
      | Inr (serverData, infoSig, sigs) \<Rightarrow>
         (case lib (json_Unmarshal_info e serverData) of
            Inl err \<Rightarrow> (Some err, s)
          | Inr info \<Rightarrow>
             (case lib (base64_DecodeString e (PublicKey info)) of
                Inl err \<Rightarrow> (Some err, s)
              | Inr newPubkey \<Rightarrow>
                 if pubkey = newPubkey then (Some ErrSignatureMismatch, s)
                 else
                   (case continuity e pubkey serverData sigs of
                      Inl p \<Rightarrow> (Some p, s)
                    | Inr verified \<Rightarrow>
                       if \<not> verified then (Some ErrSignatureMismatch, s)
                       else
                         (case ed25519_Verify e newPubkey infoSig serverData of
                            Inl p \<Rightarrow> (Some p, s)
                          | Inr False \<Rightarrow> (Some ErrSignatureMismatch, s)
                          | Inr True \<Rightarrow>
                             (case SavePubkey c (Host pfdURL) (PreviousNames info) newPubkey s of
                                (Some err, s') \<Rightarrow> (Some err, s')
                              | (None, s') \<Rightarrow>
                                 (case ed25519_Verify e newPubkey data sig of
                                    Inl p \<Rightarrow> (Some p, s')
                                  | Inr False \<Rightarrow> (Some ErrSignatureMismatch, s')
                                  | Inr True \<Rightarrow> (None, s'))))))))"

text \<open>
  The destination of \<^verbatim>\<open>json.Unmarshal(data, dest)\<close>: a pointer to a descriptor, a
  pointer to a map of descriptors, or (in \<^verbatim>\<open>LookupAllWebFinger\<close>) the map itself,
  which \<^verbatim>\<open>json.Unmarshal\<close> refuses.  Nothing is done to the decoded value.
\<close>

datatype dest = DestDescriptor | DestMapPtr | DestMap

datatype result = One Descriptor | All "(string \<times> Descriptor) list"

definition json_Unmarshal_dest :: "env \<Rightarrow> bytes \<Rightarrow> dest \<Rightarrow> error + result" where
  "json_Unmarshal_dest e data dest =
     (case dest of
        DestDescriptor \<Rightarrow>
          (case lib (json_Unmarshal_descriptor e data) of
             Inl err \<Rightarrow> Inl err
           | Inr d \<Rightarrow> Inr (One d))
      | DestMapPtr \<Rightarrow>
          (case lib (json_Unmarshal_all e data) of
             Inl err \<Rightarrow> Inl err
           | Inr m \<Rightarrow> Inr (All m))
      | DestMap \<Rightarrow> Inl (ErrLib ''json''))"

text \<open>
  Lines 219 to 274: the verification of the profile under the key, the rotation
  ceremony when it fails, and the decoding of the body.
\<close>

definition checkProfile ::
  "'s Client \<Rightarrow> env \<Rightarrow> nat \<Rightarrow> url \<Rightarrow> bytes \<Rightarrow> bool \<Rightarrow> bytes \<Rightarrow> bytes \<Rightarrow> dest \<Rightarrow> 's
     \<Rightarrow> (error + result) \<times> 's" where
  "checkProfile c e n pfdURL pubkey pubkeySaved data sig dest s =
     (case ed25519_Verify e pubkey data sig of
        Inl p \<Rightarrow> (Inl p, s)
      | Inr True \<Rightarrow> (json_Unmarshal_dest e data dest, s)
      | Inr False \<Rightarrow>
          if pubkeySaved then (Inl ErrSignatureMismatch, s)
          else
            (case rotation c e n pfdURL pubkey data sig s of
               (Some err, s') \<Rightarrow> (Inl err, s')
             | (None, s') \<Rightarrow> (json_Unmarshal_dest e data dest, s')))"

text \<open>
  \<^verbatim>\<open>Client.lookup\<close>: the link, the URL, the key (lines 121 to 185), the profile
  request, the verification.
\<close>

definition lookup ::
  "'s Client \<Rightarrow> env \<Rightarrow> nat \<Rightarrow> wf_Descriptor \<Rightarrow> string \<Rightarrow> bool \<Rightarrow> dest \<Rightarrow> 's
     \<Rightarrow> (error + result) \<times> 's" where
  "lookup c e n wfdesc ident all dest s =
     (case LinkByType wfdesc ''application/x-pfd+json'' of
        (pfdLink, ok) \<Rightarrow>
          if \<not> ok
          then (Inl (ErrString ''server does not support the profilefed protocol''), s)
          else
            (case lib (url_Parse e (Href pfdLink)) of
               Inl err \<Rightarrow> (Inl err, s)
             | Inr pfdURL0 \<Rightarrow>
                (case getKey c e n pfdURL0 s of
                   (Inl err, s1) \<Rightarrow> (Inl err, s1)
                 | (Inr (pubkey, pubkeySaved, n1), s1) \<Rightarrow>
                    (let pfdURL = profileURL e pfdURL0 ident all
                     in case fetchProfile e n1 (url_String e pfdURL) of
                          Inl err \<Rightarrow> (Inl err, s1)
                        | Inr (data, sig) \<Rightarrow>
                            checkProfile c e (Suc n1) pfdURL pubkey pubkeySaved data sig
                              dest s1))))"

text \<open>The exported operations.  The WebFinger request, when there is one, is request 0.\<close>

definition Lookup :: "'s Client \<Rightarrow> env \<Rightarrow> string \<Rightarrow> 's \<Rightarrow> (error + result) \<times> 's" where
  "Lookup c e resource s =
     (case LookupAcct (wf_Lookup e 0) resource of
        Inl err \<Rightarrow> (Inl err, s)
      | Inr wfdesc \<Rightarrow> lookup c e 1 wfdesc [] False DestDescriptor s)"

definition LookupID :: "'s Client \<Rightarrow> env \<Rightarrow> string \<Rightarrow> string \<Rightarrow> 's \<Rightarrow> (error + result) \<times> 's" where
  "LookupID c e resource ident s =
     (case LookupAcct (wf_Lookup e 0) resource of
        Inl err \<Rightarrow> (Inl err, s)
      | Inr wfdesc \<Rightarrow> lookup c e 1 wfdesc ident False DestDescriptor s)"

definition LookupAll :: "'s Client \<Rightarrow> env \<Rightarrow> string \<Rightarrow> 's \<Rightarrow> (error + result) \<times> 's" where
  "LookupAll c e resource s =
     (case LookupAcct (wf_Lookup e 0) resource of
        Inl err \<Rightarrow> (Inl err, s)
      | Inr wfdesc \<Rightarrow> lookup c e 1 wfdesc [] True DestMapPtr s)"

definition LookupWebFinger ::
  "'s Client \<Rightarrow> env \<Rightarrow> wf_Descriptor \<Rightarrow> 's \<Rightarrow> (error + result) \<times> 's" where
  "LookupWebFinger c e wfdesc s = lookup c e 0 wfdesc [] False DestDescriptor s"

definition LookupWebFingerID ::
  "'s Client \<Rightarrow> env \<Rightarrow> wf_Descriptor \<Rightarrow> string \<Rightarrow> 's \<Rightarrow> (error + result) \<times> 's" where
  "LookupWebFingerID c e wfdesc ident s = lookup c e 0 wfdesc ident False DestDescriptor s"

definition LookupAllWebFinger ::
  "'s Client \<Rightarrow> env \<Rightarrow> wf_Descriptor \<Rightarrow> 's \<Rightarrow> (error + result) \<times> 's" where
  "LookupAllWebFinger c e wfdesc s = lookup c e 0 wfdesc [] True DestMap s"

section \<open>The second copy of the client\<close>

text \<open>
  The sources hold a second copy of the client, with one operation \<^verbatim>\<open>Lookup\<close>,
  no rename audit, a \<^verbatim>\<open>getServerInfo\<close> that decodes the body itself and reads no
  signature, and a rotation that reads the response of \<^verbatim>\<open>serverInfoReq\<close> directly.
  Its definitions carry the suffix \<open>_alt\<close>.
\<close>

definition serverInfoReq :: "env \<Rightarrow> nat \<Rightarrow> string \<Rightarrow> string \<Rightarrow> error + response" where
  "serverInfoReq e n scheme host =
     lib (http_Get e n (url_String e
       \<lparr>Scheme = scheme, Host = host, Path = ''/_profilefed/server'', RawQuery = []\<rparr>))"

definition getServerInfo_alt ::
  "env \<Rightarrow> nat \<Rightarrow> string \<Rightarrow> string \<Rightarrow> error + (serverInfoData \<times> bytes list)" where
  "getServerInfo_alt e n scheme host =
     (case serverInfoReq e n scheme host of
        Inl err \<Rightarrow> Inl err
      | Inr res \<Rightarrow>
         (case checkResp res ''getServerInfo'' of
            Some err \<Rightarrow> Inl err
          | None \<Rightarrow>
             (case lib (if responseSizeLimit \<le> length (Body res)
                        then json_Decode_info e (take responseSizeLimit (Body res)) None
                        else json_Decode_info e (Body res) (ReadErr res)) of
                Inl err \<Rightarrow> Inl err
              | Inr out \<Rightarrow> Inr (out, getPrevSignatures e res))))"

definition getKey_alt ::
  "'s Client \<Rightarrow> env \<Rightarrow> nat \<Rightarrow> url \<Rightarrow> 's \<Rightarrow> (error + (bytes \<times> bool \<times> nat)) \<times> 's" where
  "getKey_alt c e n pfdURL s =
     (case GetPubkey c (Host pfdURL) s of
        Inl err \<Rightarrow>
          if errors_Is err ErrPubkeyNotFound
          then (case getServerInfo_alt e n (Scheme pfdURL) (Host pfdURL) of
                  Inl err' \<Rightarrow> (Inl err', s)
                | Inr (info, _) \<Rightarrow>
                   (case lib (base64_DecodeString e (PublicKey info)) of
                      Inl err' \<Rightarrow> (Inl err', s)
                    | Inr pubkey \<Rightarrow>
                       (case SavePubkey c (Host pfdURL) (PreviousNames info) pubkey s of
                          (Some err', s') \<Rightarrow> (Inl err', s')
                        | (None, s') \<Rightarrow> (Inr (pubkey, True, Suc n), s'))))
          else (Inl err, s)
      | Inr pubkey \<Rightarrow> (Inr (pubkey, False, n), s))"

definition rotation_alt ::
  "'s Client \<Rightarrow> env \<Rightarrow> nat \<Rightarrow> url \<Rightarrow> bytes \<Rightarrow> bytes \<Rightarrow> bytes \<Rightarrow> 's \<Rightarrow> error option \<times> 's" where
  "rotation_alt c e n pfdURL pubkey data sig s =
     (case serverInfoReq e n (Scheme pfdURL) (Host pfdURL) of
        Inl err \<Rightarrow> (Some err, s)
      | Inr res \<Rightarrow>
         (case readAllLimited res of
            Inl err \<Rightarrow> (Some err, s)
          | Inr serverData \<Rightarrow>
             (case lib (json_Unmarshal_info e serverData) of
                Inl err \<Rightarrow> (Some err, s)
              | Inr info \<Rightarrow>
                 (case lib (base64_DecodeString e (PublicKey info)) of
                    Inl err \<Rightarrow> (Some err, s)
                  | Inr newPubkey \<Rightarrow>
                     if pubkey = newPubkey then (Some ErrSignatureMismatch, s)
                     else
                       (case continuity e pubkey serverData (getPrevSignatures e res) of
                          Inl p \<Rightarrow> (Some p, s)
                        | Inr verified \<Rightarrow>
                           if \<not> verified then (Some ErrSignatureMismatch, s)
                           else
                             (case getSignature e res of
                                Inl err \<Rightarrow> (Some err, s)
                              | Inr infoSig \<Rightarrow>
                                 (case ed25519_Verify e newPubkey infoSig serverData of
                                    Inl p \<Rightarrow> (Some p, s)
                                  | Inr False \<Rightarrow> (Some ErrSignatureMismatch, s)
                                  | Inr True \<Rightarrow>
                                     (case SavePubkey c (Host pfdURL) (PreviousNames info)
                                             newPubkey s of
                                        (Some err, s') \<Rightarrow> (Some err, s')
                                      | (None, s') \<Rightarrow>
                                         (case ed25519_Verify e newPubkey data sig of
                                            Inl p \<Rightarrow> (Some p, s')
                                          | Inr False \<Rightarrow> (Some ErrSignatureMismatch, s')
                                          | Inr True \<Rightarrow> (None, s'))))))))))"

text \<open>
  The end of \<^verbatim>\<open>Lookup\<close> in that copy: decode, then default the role;
  \<open>checkProfile_alt\<close> is the verification before it, with the rotation above.
\<close>

definition decodeDescriptor_alt :: "env \<Rightarrow> bytes \<Rightarrow> error + Descriptor" where
  "decodeDescriptor_alt e data =
     (case lib (json_Unmarshal_descriptor e data) of
        Inl err \<Rightarrow> Inl err
      | Inr desc \<Rightarrow> Inr (if Role desc = [] then desc\<lparr>Role := RoleUser\<rparr> else desc))"

definition checkProfile_alt ::
  "'s Client \<Rightarrow> env \<Rightarrow> nat \<Rightarrow> url \<Rightarrow> bytes \<Rightarrow> bool \<Rightarrow> bytes \<Rightarrow> bytes \<Rightarrow> 's
     \<Rightarrow> (error + Descriptor) \<times> 's" where
  "checkProfile_alt c e n pfdURL pubkey pubkeySaved data sig s =
     (case ed25519_Verify e pubkey data sig of
        Inl p \<Rightarrow> (Inl p, s)
      | Inr True \<Rightarrow> (decodeDescriptor_alt e data, s)
      | Inr False \<Rightarrow>
          if pubkeySaved then (Inl ErrSignatureMismatch, s)
          else
            (case rotation_alt c e n pfdURL pubkey data sig s of
               (Some err, s') \<Rightarrow> (Inl err, s')
             | (None, s') \<Rightarrow> (decodeDescriptor_alt e data, s')))"

definition Lookup_alt :: "'s Client \<Rightarrow> env \<Rightarrow> string \<Rightarrow> 's \<Rightarrow> (error + Descriptor) \<times> 's" where
  "Lookup_alt c e ident s =
     (case LookupAcct (wf_Lookup e 0) ident of
        Inl err \<Rightarrow> (Inl err, s)
      | Inr wfdesc \<Rightarrow>
         (case LinkByType wfdesc ''application/x-pfd+json'' of
            (pfdLink, ok) \<Rightarrow>
              if \<not> ok
              then (Inl (ErrString ''server does not support the profilefed protocol''), s)
              else
                (case lib (url_Parse e (Href pfdLink)) of
                   Inl err \<Rightarrow> (Inl err, s)
                 | Inr pfdURL \<Rightarrow>
                    (case getKey_alt c e 1 pfdURL s of
                       (Inl err, s1) \<Rightarrow> (Inl err, s1)
                     | (Inr (pubkey, pubkeySaved, n1), s1) \<Rightarrow>
                        (case fetchProfile e n1 (Href pfdLink) of
                           Inl err \<Rightarrow> (Inl err, s1)
                         | Inr (data, sig) \<Rightarrow>
                             checkProfile_alt c e (Suc n1) pfdURL pubkey pubkeySaved data sig
                               s1)))))"

section \<open>The handlers (the profile handler, and server_info.go)\<close>

text \<open>
  The response writer records the headers set and the bytes written; a write fails
  with the error the writer holds, if any, and then writes nothing.  The request shows
  its query.  The library calls of the handlers are parameters; \<^verbatim>\<open>ed25519.Sign\<close>
  panics on a private key that is not 64 bytes long.  A handler returns the error it
  passed to its error handler, if any, and the writer; calling an error handler that
  is not set panics.
\<close>

record writer =
  w_Header :: "string \<Rightarrow> string list"
  w_Body :: bytes
  w_WriteErr :: "string option"

record request =
  r_Query :: url_Values

definition values_Get :: "url_Values \<Rightarrow> string \<Rightarrow> string" where
  "values_Get q key = (case map_of q key of None \<Rightarrow> [] | Some [] \<Rightarrow> [] | Some (v # _) \<Rightarrow> v)"

definition Header_Set :: "(string \<Rightarrow> string list) \<Rightarrow> string \<Rightarrow> string \<Rightarrow> (string \<Rightarrow> string list)" where
  "Header_Set h key v = h(key := [v])"

definition Header_Add :: "(string \<Rightarrow> string list) \<Rightarrow> string \<Rightarrow> string \<Rightarrow> (string \<Rightarrow> string list)" where
  "Header_Add h key v = h(key := h key @ [v])"

definition Write :: "bytes \<Rightarrow> writer \<Rightarrow> error option \<times> writer" where
  "Write data res =
     (case lib_opt (w_WriteErr res) of
        Some err \<Rightarrow> (Some err, res)
      | None \<Rightarrow> (None, res\<lparr>w_Body := w_Body res @ data\<rparr>))"

record senv =
  json_Marshal_descriptor :: "Descriptor \<Rightarrow> string + bytes"
  json_Marshal_all :: "(string \<times> Descriptor) list \<Rightarrow> string + bytes"
  json_Marshal_info :: "serverInfoData \<Rightarrow> string + bytes"
  base64_EncodeToString :: "bytes \<Rightarrow> string"
  ed25519_sign :: "bytes \<Rightarrow> bytes \<Rightarrow> bytes"

definition PrivateKeySize :: nat where
  "PrivateKeySize = 64"

definition ed25519_Sign :: "senv \<Rightarrow> bytes \<Rightarrow> bytes \<Rightarrow> error + bytes" where
  "ed25519_Sign se privateKey message =
     (if length privateKey \<noteq> PrivateKeySize then Inl (Panic ''ed25519: bad private key length'')
      else Inr (ed25519_sign se privateKey message))"

definition callErrorHandler ::
  "(error \<Rightarrow> writer \<Rightarrow> writer) option \<Rightarrow> error \<Rightarrow> writer \<Rightarrow> error + (error option \<times> writer)" where
  "callErrorHandler handler err res =
     (case handler of
        None \<Rightarrow> Inl (Panic ''nil function call'')
      | Some f \<Rightarrow> Inr (Some err, f err res))"

record Handler =
  PrivateKey :: bytes
  AllDescriptorsFunc :: "request \<Rightarrow> error + (string \<times> Descriptor) list"
  DescriptorFunc :: "request \<Rightarrow> error + Descriptor"
  ErrorHandler :: "(error \<Rightarrow> writer \<Rightarrow> writer) option"

definition Handler_ServeHTTP ::
  "senv \<Rightarrow> Handler \<Rightarrow> writer \<Rightarrow> request \<Rightarrow> error + (error option \<times> writer)" where
  "Handler_ServeHTTP se h res req =
     (case (if values_Get (r_Query req) ''all'' = ''1''
            then (case AllDescriptorsFunc h req of
                    Inl err \<Rightarrow> Inl err
                  | Inr descriptors \<Rightarrow> lib (json_Marshal_all se descriptors))
            else (case DescriptorFunc h req of
                    Inl err \<Rightarrow> Inl err
                  | Inr descriptor \<Rightarrow> lib (json_Marshal_descriptor se descriptor))) of
        Inl err \<Rightarrow> callErrorHandler (ErrorHandler h) err res
      | Inr data \<Rightarrow>
         (case ed25519_Sign se (PrivateKey h) data of
            Inl p \<Rightarrow> Inl p
          | Inr sig \<Rightarrow>
             (let res1 = res\<lparr>w_Header :=
                    Header_Set
                      (Header_Set (w_Header res) ''X-ProfileFed-Sig''
                         (base64_EncodeToString se sig))
                      ''Content-Type'' ''application/x-pfd+json''\<rparr>
              in case Write data res1 of
                   (Some err, res2) \<Rightarrow> callErrorHandler (ErrorHandler h) err res2
                 | (None, res2) \<Rightarrow> Inr (None, res2))))"

record ServerInfoHandler =
  sih_ServerName :: string
  sih_PreviousNames :: "string list"
  sih_PublicKey :: bytes
  sih_PrivateKey :: bytes
  sih_PreviousKeys :: "bytes list"
  sih_ErrorHandler :: "(error \<Rightarrow> writer \<Rightarrow> writer) option"

text \<open>The loop over the previous keys, one added header for each.\<close>

fun addPrevious ::
  "senv \<Rightarrow> bytes list \<Rightarrow> bytes \<Rightarrow> (string \<Rightarrow> string list) \<Rightarrow> error + (string \<Rightarrow> string list)" where
  "addPrevious se [] data h = Inr h"
| "addPrevious se (key # rest) data h =
     (case ed25519_Sign se key data of
        Inl p \<Rightarrow> Inl p
      | Inr sig \<Rightarrow>
          addPrevious se rest data
            (Header_Add h ''X-ProfileFed-Previous'' (base64_EncodeToString se sig)))"

definition ServerInfoHandler_ServeHTTP ::
  "senv \<Rightarrow> ServerInfoHandler \<Rightarrow> writer \<Rightarrow> request \<Rightarrow> error + (error option \<times> writer)" where
  "ServerInfoHandler_ServeHTTP se sih res req =
     (case lib (json_Marshal_info se
             \<lparr>ServerName = sih_ServerName sih, PreviousNames = sih_PreviousNames sih,
              PublicKey = base64_EncodeToString se (sih_PublicKey sih)\<rparr>) of
        Inl err \<Rightarrow> callErrorHandler (sih_ErrorHandler sih) err res
      | Inr data \<Rightarrow>
         (case addPrevious se (sih_PreviousKeys sih) data (w_Header res) of
            Inl p \<Rightarrow> Inl p
          | Inr h1 \<Rightarrow>
             (case ed25519_Sign se (sih_PrivateKey sih) data of
                Inl p \<Rightarrow> Inl p
              | Inr sig \<Rightarrow>
                 (let res1 = res\<lparr>w_Header :=
                        Header_Set h1 ''X-ProfileFed-Sig'' (base64_EncodeToString se sig)\<rparr>
                  in case Write data res1 of
                       (Some err, res2) \<Rightarrow> callErrorHandler (sih_ErrorHandler sih) err res2
                     | (None, res2) \<Rightarrow> Inr (None, res2)))))"

section \<open>Example worlds\<close>

text \<open>
  Concrete instances of the parameters, for the scenarios evaluated below.  The
  signature of a message under a key is the key followed by the message (the private
  key ends in its public key, as in \<^verbatim>\<open>crypto/ed25519\<close>); base64 is the identity;
  a JSON body is decoded by a table with one entry; the network answers by URL: the
  server info, the profile (also when asked for the id \<open>a\<close>) and the WebFinger
  document of \<open>acct:alice@b.example\<close>.
\<close>

definition K1 :: bytes where
  "K1 = ''11111111111111111111111111111111''"

definition K2 :: bytes where
  "K2 = ''22222222222222222222222222222222''"

definition SK2 :: bytes where
  "SK2 = ''ssssssssssssssssssssssssssssssss22222222222222222222222222222222''"

definition ex_public :: "bytes \<Rightarrow> bytes" where
  "ex_public privateKey = drop 32 privateKey"

definition ex_sign :: "bytes \<Rightarrow> bytes \<Rightarrow> bytes" where
  "ex_sign privateKey message = ex_public privateKey @ message"

definition ex_verify :: "bytes \<Rightarrow> bytes \<Rightarrow> bytes \<Rightarrow> bool" where
  "ex_verify publicKey message sig = (sig = publicKey @ message)"

definition ex_url_String :: "url \<Rightarrow> string" where
  "ex_url_String u =
     Scheme u @ ''://'' @ Host u @ Path u @
       (if RawQuery u = [] then [] else CHR ''?'' # RawQuery u)"

definition ex_url_Parse :: "string \<Rightarrow> string + url" where
  "ex_url_Parse h =
     (if h = ''http://b.example/pfd''
      then Inr \<lparr>Scheme = ''http'', Host = ''b.example'', Path = ''/pfd'', RawQuery = []\<rparr>
      else Inl ''url'')"

definition ex_url_Encode :: "url_Values \<Rightarrow> string" where
  "ex_url_Encode q = concat (map (\<lambda>(k, vs). k @ CHR ''='' # concat vs) q)"

definition ex_response :: "bytes \<Rightarrow> string \<Rightarrow> string list \<Rightarrow> response" where
  "ex_response body sig prev =
     \<lparr>StatusCode = 200, Status = ''200 OK'',
      Header = (\<lambda>k. if k = ''X-ProfileFed-Sig'' then [sig]
                    else if k = ''X-ProfileFed-Previous'' then prev else []),
      Body = body, ReadErr = None, CloseErr = None\<rparr>"

definition ex_net :: "response \<Rightarrow> response \<Rightarrow> nat \<Rightarrow> string \<Rightarrow> string + response" where
  "ex_net infoRes profileRes n u =
     (if u = ''http://b.example/_profilefed/server'' then Inr infoRes
      else if u = ''http://b.example/pfd'' \<or> u = ''http://b.example/pfd?id=a''
      then Inr profileRes
      else if u = ''http://b.example/.well-known/webfinger?resource=acct:alice@b.example''
      then Inr (ex_response ''JRD'' [] [])
      else Inl ''net'')"

definition ex_unmarshal :: "bytes \<Rightarrow> 'a \<Rightarrow> bytes \<Rightarrow> string + 'a" where
  "ex_unmarshal doc v data = (if data = doc then Inr v else Inl ''json'')"

definition ex_wfdesc :: wf_Descriptor where
  "ex_wfdesc =
     \<lparr>Subject = ''acct:alice@b.example'', Aliases = [], Properties = [],
      Links = [\<lparr>Rel = ''self'', Type = ''application/x-pfd+json'',
                Href = ''http://b.example/pfd''\<rparr>]\<rparr>"

definition ex_env :: "response \<Rightarrow> response \<Rightarrow> serverInfoData \<Rightarrow> Descriptor \<Rightarrow> env" where
  "ex_env infoRes profileRes info desc =
     \<lparr>http_Get = ex_net infoRes profileRes,
      url_Parse = ex_url_Parse,
      url_String = ex_url_String,
      url_ParseQuery = (\<lambda>raw. []),
      url_Encode = ex_url_Encode,
      url_QueryEscape = (\<lambda>x. x),
      base64_DecodeString = Inr,
      json_Unmarshal_info = ex_unmarshal ''INFO'' info,
      json_Unmarshal_descriptor = ex_unmarshal ''PROFILE'' desc,
      json_Unmarshal_all = (\<lambda>data. Inl ''json''),
      json_Decode_info = (\<lambda>data r. ex_unmarshal ''INFO'' info data),
      json_Decode_jrd = (\<lambda>data r. ex_unmarshal ''JRD'' ex_wfdesc data),
      ed25519_verify = ex_verify\<rparr>"

definition ex_desc :: Descriptor where
  "ex_desc =
     \<lparr>ID = ''a'', Namespaces = [], DisplayName = [], Username = ''alice'', Bio = [],
      Role = [], Extra = []\<rparr>"

definition ex_info :: "string list \<Rightarrow> serverInfoData" where
  "ex_info previousNames =
     \<lparr>ServerName = ''b.example'', PreviousNames = previousNames, PublicKey = K2\<rparr>"

definition ex_senv :: senv where
  "ex_senv =
     \<lparr>json_Marshal_descriptor = (\<lambda>d. Inr (''D:'' @ Username d)),
      json_Marshal_all = (\<lambda>m. Inr (''A:'' @ concat (map fst m))),
      json_Marshal_info = (\<lambda>i. Inr (''I:'' @ ServerName i)),
      base64_EncodeToString = (\<lambda>x. x),
      ed25519_sign = ex_sign\<rparr>"

text \<open>
  The server at \<open>b.example\<close> with the key \<open>K2\<close>: its server info carries the given
  signature, the given previous signatures and the given previous names; its profile
  carries the given signature.
\<close>

definition ex_world :: "string \<Rightarrow> string list \<Rightarrow> string list \<Rightarrow> string \<Rightarrow> env" where
  "ex_world infoSig prevSigs previousNames profileSig =
     ex_env (ex_response ''INFO'' infoSig prevSigs) (ex_response ''PROFILE'' profileSig [])
       (ex_info previousNames) ex_desc"

definition ex_writer :: writer where
  "ex_writer = \<lparr>w_Header = (\<lambda>k. []), w_Body = [], w_WriteErr = None\<rparr>"

definition ex_handler :: Handler where
  "ex_handler =
     \<lparr>PrivateKey = SK2,
      AllDescriptorsFunc = (\<lambda>req. Inr [(''a'', ex_desc)]),
      DescriptorFunc = (\<lambda>req. Inr ex_desc),
      ErrorHandler = None\<rparr>"

definition ex_sih :: ServerInfoHandler where
  "ex_sih =
     \<lparr>sih_ServerName = ''b.example'', sih_PreviousNames = [], sih_PublicKey = K2,
      sih_PrivateKey = SK2, sih_PreviousKeys = [], sih_ErrorHandler = None\<rparr>"

section \<open>Basic facts\<close>

lemma lib_Inr [simp]: "(lib r = Inr x) = (r = Inr x)"
  by (cases r) (simp_all add: lib_def)

lemma lib_Inl [simp]: "(lib r = Inl err) = (\<exists>msg. r = Inl msg \<and> err = ErrLib msg)"
  by (cases r) (auto simp: lib_def)

lemma lib_simps [simp]: "lib (Inl msg) = Inl (ErrLib msg)" "lib (Inr x) = Inr x"
  by (simp_all add: lib_def)

lemma lib_opt_simps [simp]: "lib_opt None = None" "lib_opt (Some msg) = Some (ErrLib msg)"
  by (simp_all add: lib_opt_def)

lemma lib_opt_None [simp]: "(lib_opt r = None) = (r = None)"
  by (cases r) (simp_all add: lib_opt_def)

lemma lib_opt_Some [simp]: "(lib_opt r = Some err) = (\<exists>msg. r = Some msg \<and> err = ErrLib msg)"
  by (cases r) (auto simp: lib_opt_def)

lemma strings_Cut_first:
  "sep \<notin> set u \<Longrightarrow> strings_Cut (u @ sep # v) sep = (u, v, True)"
  by (induction u) (auto simp: strings_Cut_def)

lemma strings_Cut_none:
  "sep \<notin> set s \<Longrightarrow> strings_Cut s sep = (s, [], False)"
  by (simp add: strings_Cut_def)

section \<open>Properties of the default pubkey store\<close>

lemma deleteNames_apply:
  "deleteNames names m k = (if k \<in> set names then None else m k)"
  by (induction names arbitrary: m) (auto simp: sync_Map_Delete_def)

text \<open>
  C6, as the code has it.  After \<open>Save(name, previous_names, key)\<close> on the default
  in-memory store (the call always succeeds), every previous name is absent from the
  store, and \<open>Get(name)\<close> returns \<open>key\<close> provided that \<open>name\<close> is not itself one of the
  previous names: the sweep runs after the store, so a name listed among its own
  previous names is deleted again.
\<close>

theorem DefaultClient_save_then_get:
  assumes "SavePubkey DefaultClient name previous_names key m = (r, m')"
  shows "r = None
       \<and> (name \<notin> set previous_names \<longrightarrow> GetPubkey DefaultClient name m' = Inr key)
       \<and> (\<forall>p \<in> set previous_names. GetPubkey DefaultClient p m' = Inl ErrPubkeyNotFound)"
  using assms
  by (auto simp: DefaultClient_def DefaultClient_SavePubkey_def DefaultClient_GetPubkey_def
      sync_Map_Load_def sync_Map_Store_def deleteNames_apply)

theorem DefaultClient_save_then_get_witness:
  "SavePubkey DefaultClient ''b.example'' [''a.example''] ''K2''
       [''a.example'' \<mapsto> ''K1''] =
     (None, [''b.example'' \<mapsto> ''K2''])
   \<and> GetPubkey DefaultClient ''b.example'' [''b.example'' \<mapsto> ''K2''] = Inr ''K2''
   \<and> GetPubkey DefaultClient ''a.example'' [''b.example'' \<mapsto> ''K2'']
       = Inl ErrPubkeyNotFound"
proof -
  have s: "SavePubkey DefaultClient ''b.example'' [''a.example''] ''K2''
       [''a.example'' \<mapsto> ''K1''] = (None, [''b.example'' \<mapsto> ''K2''])"
    by (auto simp: DefaultClient_def DefaultClient_SavePubkey_def sync_Map_Store_def
        sync_Map_Delete_def)
  from DefaultClient_save_then_get [OF s] s show ?thesis by simp
qed

text \<open>
  C6 as stated fails in its edge case: when \<open>name\<close> is one of \<open>previous_names\<close>, the
  key just stored is swept away and \<open>Get(name)\<close> reports that no key is stored.
\<close>

theorem DefaultClient_save_self_previous_counterexample:
  "GetPubkey DefaultClient ''a.example''
     (snd (SavePubkey DefaultClient ''a.example'' [''a.example''] ''K1'' Map.empty))
   = Inl ErrPubkeyNotFound
   \<and> GetPubkey DefaultClient ''a.example''
     (snd (SavePubkey DefaultClient ''a.example'' [''a.example''] ''K1'' Map.empty))
   \<noteq> Inr ''K1''"
  by (simp add: DefaultClient_def DefaultClient_SavePubkey_def DefaultClient_GetPubkey_def
      sync_Map_Load_def sync_Map_Store_def sync_Map_Delete_def)

section \<open>LookupAcct\<close>

text \<open>
  C8, as the code has it.  \<^verbatim>\<open>LookupAcct\<close> fails with the error "invalid acct id"
  when the id has no \<open>@\<close>; otherwise it splits the id at its first \<open>@\<close> (the text
  before it has none), looks up at the server named by everything after that \<open>@\<close>,
  and puts \<open>acct:\<close> before the id when the id does not start with it.
\<close>

theorem LookupAcct_first_at:
  "(CHR ''@'' \<notin> set ident \<longrightarrow> LookupAcct L ident = Inl (ErrString ''invalid acct id''))
   \<and> (CHR ''@'' \<notin> set user \<longrightarrow>
        LookupAcct L (user @ CHR ''@'' # server) =
          L (if strings_HasPrefix (user @ CHR ''@'' # server) ''acct:''
             then user @ CHR ''@'' # server
             else ''acct:'' @ user @ CHR ''@'' # server) server)"
  by (simp add: LookupAcct_def strings_Cut_first strings_Cut_none)

theorem LookupAcct_first_at_witness:
  "LookupAcct (\<lambda>resource server. Inr (resource, server)) ''alice''
       = Inl (ErrString ''invalid acct id'')
   \<and> LookupAcct (\<lambda>resource server. Inr (resource, server)) ''alice@example.com''
       = Inr (''acct:alice@example.com'', ''example.com'')
   \<and> LookupAcct (\<lambda>resource server. Inr (resource, server)) ''acct:alice@example.com''
       = Inr (''acct:alice@example.com'', ''example.com'')"
  using LookupAcct_first_at [of "''alice''" "\<lambda>resource server. Inr (resource, server)"
      "''alice''" "''example.com''"]
    LookupAcct_first_at [of "''alice''" "\<lambda>resource server. Inr (resource, server)"
      "''acct:alice''" "''example.com''"]
  by (simp add: strings_HasPrefix_def)

text \<open>
  C8 as stated has the split at the last \<open>@\<close>: for \<open>a@b@c\<close> the server would be
  \<open>c\<close>, and the code asks \<open>b@c\<close>.
\<close>

theorem LookupAcct_last_at_counterexample:
  "LookupAcct (\<lambda>resource server. Inr (resource, server)) ''a@b@c''
       = Inr (''acct:a@b@c'', ''b@c'')
   \<and> LookupAcct (\<lambda>resource server. Inr (resource, server)) ''a@b@c''
       \<noteq> Inr (''acct:a@b@c'', ''c'')"
  by (simp add: LookupAcct_def strings_Cut_def strings_HasPrefix_def)

section \<open>AddExtra\<close>

lemma count_list_member_max:
  "x \<in> set xs \<Longrightarrow> max (Suc 0) (count_list xs x) = count_list xs x"
  using count_list_0_iff [of xs x] by (simp add: max_def)

lemma count_list_absent_snoc:
  "x \<notin> set xs \<Longrightarrow> count_list (xs @ [x]) x = Suc 0 \<and> count_list xs x = 0"
  by (simp add: count_list_0_iff)

lemma AddExtra_count:
  assumes "CHR ''#'' \<notin> set ns"
  shows "count_list (Namespaces (snd (AddExtra m d (ns @ CHR ''#'' # frag) t x))) ns
           = max 1 (count_list (Namespaces d) ns)"
  using assms
  by (auto simp: AddExtra_def strings_Cut_first slices_Contains_def Let_def
      count_list_member_max count_list_absent_snoc split: sum.splits)

lemma AddExtra_all_count:
  assumes "CHR ''#'' \<notin> set ns"
  shows "count_list (Namespaces (snd (AddExtra_all m d
            (map (\<lambda>(frag, t, x). (ns @ CHR ''#'' # frag, t, x)) adds)))) ns
           = (if adds = [] then count_list (Namespaces d) ns
              else max 1 (count_list (Namespaces d) ns))"
proof (induction adds arbitrary: d)
  case Nil
  then show ?case by simp
next
  case (Cons a adds)
  obtain frag t x where a: "a = (frag, t, x)" by (cases a)
  obtain r d1 where s: "AddExtra m d (ns @ CHR ''#'' # frag) t x = (r, d1)"
    by (cases "AddExtra m d (ns @ CHR ''#'' # frag) t x")
  from AddExtra_count [OF assms, of m d frag t x] s
  have c: "count_list (Namespaces d1) ns = max 1 (count_list (Namespaces d) ns)" by simp
  show ?case
  proof (cases r)
    case None
    with a s c Cons.IH [of d1] show ?thesis by (simp add: max_def)
  next
    case (Some err)
    with a s c show ?thesis by simp
  qed
qed

text \<open>
  C9, as the code has it.  Let \<open>ns\<close> be a namespace without \<open>#\<close> and let the
  descriptor list \<open>ns\<close> at most once.  Then \<open>AddExtra\<close> with the namespace
  \<open>ns#frag\<close> fails exactly when the serialisation of the data fails, and with its
  error; afterwards the namespaces list \<open>ns\<close> exactly once, also after any number of
  such calls with any fragments; on success the entry appended to \<open>Extra\<close> keeps the
  namespace with its fragment, and on failure \<open>Extra\<close> is unchanged.
\<close>

theorem AddExtra_bare_namespace_once:
  assumes "CHR ''#'' \<notin> set ns" and "count_list (Namespaces d) ns \<le> 1"
  shows "fst (AddExtra m d (ns @ CHR ''#'' # frag) t x)
           = (case m x of Inl msg \<Rightarrow> Some (ErrLib msg) | Inr data \<Rightarrow> None)
       \<and> count_list (Namespaces (snd (AddExtra m d (ns @ CHR ''#'' # frag) t x))) ns = 1
       \<and> Extra (snd (AddExtra m d (ns @ CHR ''#'' # frag) t x))
           = (case m x of
                Inl msg \<Rightarrow> Extra d
              | Inr data \<Rightarrow>
                  Extra d @ [\<lparr>Namespace = ns @ CHR ''#'' # frag, EType = t, Data = data\<rparr>])
       \<and> (adds = [] \<or>
            count_list (Namespaces (snd (AddExtra_all m d
              (map (\<lambda>(frag, t, x). (ns @ CHR ''#'' # frag, t, x)) adds)))) ns = 1)"
proof -
  have 1: "fst (AddExtra m d (ns @ CHR ''#'' # frag) t x)
           = (case m x of Inl msg \<Rightarrow> Some (ErrLib msg) | Inr data \<Rightarrow> None)"
    by (cases "m x") (simp_all add: AddExtra_def Let_def)
  have 3: "Extra (snd (AddExtra m d (ns @ CHR ''#'' # frag) t x))
           = (case m x of
                Inl msg \<Rightarrow> Extra d
              | Inr data \<Rightarrow>
                  Extra d @ [\<lparr>Namespace = ns @ CHR ''#'' # frag, EType = t, Data = data\<rparr>])"
    by (cases "m x") (simp_all add: AddExtra_def Let_def)
  from assms(2) have m: "max 1 (count_list (Namespaces d) ns) = 1" by simp
  show ?thesis
    using 1 3 AddExtra_count [OF assms(1), of m d frag t x]
      AddExtra_all_count [OF assms(1), of m d adds] m
    by simp
qed

theorem AddExtra_bare_namespace_once_witness:
  "fst (AddExtra Inr ex_desc ''http://ns.example/v1#color'' ''category'' ''1'') = None
   \<and> count_list (Namespaces (snd (AddExtra Inr ex_desc ''http://ns.example/v1#color''
         ''category'' ''1''))) ''http://ns.example/v1'' = 1
   \<and> Extra (snd (AddExtra Inr ex_desc ''http://ns.example/v1#color'' ''category'' ''1''))
       = [\<lparr>Namespace = ''http://ns.example/v1#color'', EType = ''category'', Data = ''1''\<rparr>]
   \<and> count_list (Namespaces (snd (AddExtra_all Inr ex_desc
         [(''http://ns.example/v1#color'', ''category'', ''1''),
          (''http://ns.example/v1#size'', ''category'', ''2'')]))) ''http://ns.example/v1'' = 1"
proof -
  have h1: "CHR ''#'' \<notin> set ''http://ns.example/v1''" by simp
  have h2: "count_list (Namespaces ex_desc) ''http://ns.example/v1'' \<le> 1"
    by (simp add: ex_desc_def)
  from AddExtra_bare_namespace_once [OF h1 h2, of Inr "''color''" "''category''" "''1''"
      "[(''color'', ''category'', ''1''), (''size'', ''category'', ''2'')]"]
  show ?thesis by (simp add: ex_desc_def)
qed

text \<open>
  C9 as stated speaks of every descriptor: one that already lists the namespace twice
  still lists it twice after a successful \<open>AddExtra\<close>.
\<close>

theorem AddExtra_duplicate_namespace_counterexample:
  "fst (AddExtra Inr (ex_desc\<lparr>Namespaces := [''http://ns.example/v1'', ''http://ns.example/v1'']\<rparr>)
          ''http://ns.example/v1#color'' ''category'' ''1'') = None
   \<and> count_list (Namespaces (snd (AddExtra Inr
          (ex_desc\<lparr>Namespaces := [''http://ns.example/v1'', ''http://ns.example/v1'']\<rparr>)
          ''http://ns.example/v1#color'' ''category'' ''1''))) ''http://ns.example/v1'' = 2"
  by (simp add: AddExtra_def strings_Cut_def slices_Contains_def ex_desc_def Let_def)

section \<open>The handlers sign what they write\<close>

lemma Header_Get_Set:
  "Header_Get (Header_Set h key v) key = v"
  "key' \<noteq> key \<Longrightarrow> Header_Get (Header_Set h key' v) key = Header_Get h key"
  by (simp_all add: Header_Get_def Header_Set_def)

lemma Write_ok:
  "Write data res = (None, res') \<Longrightarrow> w_Body res' = w_Body res @ data \<and> w_Header res' = w_Header res"
  by (auto simp: Write_def split: option.split_asm)

lemma Handler_signs_body:
  assumes "Handler_ServeHTTP se h res req = Inr (None, res')"
  shows "\<exists>data. w_Body res' = w_Body res @ data
           \<and> Header_Get (w_Header res') ''X-ProfileFed-Sig''
               = base64_EncodeToString se (ed25519_sign se (PrivateKey h) data)"
proof -
  let ?data = "if values_Get (r_Query req) ''all'' = ''1''
            then (case AllDescriptorsFunc h req of
                    Inl err \<Rightarrow> Inl err
                  | Inr descriptors \<Rightarrow> lib (json_Marshal_all se descriptors))
            else (case DescriptorFunc h req of
                    Inl err \<Rightarrow> Inl err
                  | Inr descriptor \<Rightarrow> lib (json_Marshal_descriptor se descriptor))"
  from assms obtain data where d: "?data = Inr data"
    by (cases ?data) (auto simp: Handler_ServeHTTP_def callErrorHandler_def split: option.split_asm)
  from assms d obtain sg where s: "ed25519_Sign se (PrivateKey h) data = Inr sg"
    by (cases "ed25519_Sign se (PrivateKey h) data") (auto simp: Handler_ServeHTTP_def)
  then have sg: "sg = ed25519_sign se (PrivateKey h) data"
    by (auto simp: ed25519_Sign_def split: if_split_asm)
  let ?res1 = "res\<lparr>w_Header :=
                    Header_Set
                      (Header_Set (w_Header res) ''X-ProfileFed-Sig''
                         (base64_EncodeToString se sg))
                      ''Content-Type'' ''application/x-pfd+json''\<rparr>"
  from assms d s have w: "Write data ?res1 = (None, res')"
    by (auto simp: Handler_ServeHTTP_def Let_def callErrorHandler_def
        split: prod.split_asm option.split_asm)
  from Write_ok [OF w] sg show ?thesis
    by (auto simp: Header_Get_Set)
qed

lemma ServerInfoHandler_signs_body:
  assumes "ServerInfoHandler_ServeHTTP se sih res req = Inr (None, res')"
  shows "\<exists>data. w_Body res' = w_Body res @ data
           \<and> Header_Get (w_Header res') ''X-ProfileFed-Sig''
               = base64_EncodeToString se (ed25519_sign se (sih_PrivateKey sih) data)"
proof -
  let ?data = "lib (json_Marshal_info se
             \<lparr>ServerName = sih_ServerName sih, PreviousNames = sih_PreviousNames sih,
              PublicKey = base64_EncodeToString se (sih_PublicKey sih)\<rparr>)"
  from assms obtain data where d: "?data = Inr data"
    by (cases ?data) (auto simp: ServerInfoHandler_ServeHTTP_def callErrorHandler_def
        split: option.split_asm)
  from assms d obtain h1 where
    p: "addPrevious se (sih_PreviousKeys sih) data (w_Header res) = Inr h1"
    by (cases "addPrevious se (sih_PreviousKeys sih) data (w_Header res)")
      (auto simp: ServerInfoHandler_ServeHTTP_def)
  from assms d p obtain sg where s: "ed25519_Sign se (sih_PrivateKey sih) data = Inr sg"
    by (cases "ed25519_Sign se (sih_PrivateKey sih) data")
      (auto simp: ServerInfoHandler_ServeHTTP_def)
  then have sg: "sg = ed25519_sign se (sih_PrivateKey sih) data"
    by (auto simp: ed25519_Sign_def split: if_split_asm)
  let ?res1 = "res\<lparr>w_Header :=
                        Header_Set h1 ''X-ProfileFed-Sig'' (base64_EncodeToString se sg)\<rparr>"
  from assms d p s have w: "Write data ?res1 = (None, res')"
    by (auto simp: ServerInfoHandler_ServeHTTP_def Let_def callErrorHandler_def
        split: prod.split_asm option.split_asm)
  from Write_ok [OF w] sg show ?thesis
    by (auto simp: Header_Get_Set)
qed

text \<open>
  C7.  Let base64 decoding undo base64 encoding, and let a signature made with a
  private key verify under its public key.  Whenever the profile handler or the
  server-info handler writes a response without calling its error handler, the bytes
  it wrote are some \<open>data\<close>, the header \<^verbatim>\<open>X-ProfileFed-Sig\<close> decodes to the signature
  of exactly \<open>data\<close> under the handler's private key, and that signature verifies
  \<open>data\<close> under the public key.
\<close>

theorem handlers_sign_the_bytes_written:
  assumes b64: "\<forall>x. dec (base64_EncodeToString se x) = Inr x"
    and crypto: "\<forall>k m. vfy (pub k) m (ed25519_sign se k m)"
  shows "(Handler_ServeHTTP se h res req = Inr (None, res') \<longrightarrow>
            (\<exists>data sg. w_Body res' = w_Body res @ data
               \<and> sg = ed25519_sign se (PrivateKey h) data
               \<and> dec (Header_Get (w_Header res') ''X-ProfileFed-Sig'') = Inr sg
               \<and> vfy (pub (PrivateKey h)) data sg))
       \<and> (ServerInfoHandler_ServeHTTP se sih res req = Inr (None, res'') \<longrightarrow>
            (\<exists>data sg. w_Body res'' = w_Body res @ data
               \<and> sg = ed25519_sign se (sih_PrivateKey sih) data
               \<and> dec (Header_Get (w_Header res'') ''X-ProfileFed-Sig'') = Inr sg
               \<and> vfy (pub (sih_PrivateKey sih)) data sg))"
  using Handler_signs_body [of se h res req res']
    ServerInfoHandler_signs_body [of se sih res req res''] b64 crypto
  by auto

theorem handlers_sign_the_bytes_written_witness:
  "\<exists>res' res''.
     Handler_ServeHTTP ex_senv ex_handler ex_writer \<lparr>r_Query = []\<rparr> = Inr (None, res')
   \<and> ServerInfoHandler_ServeHTTP ex_senv ex_sih ex_writer \<lparr>r_Query = []\<rparr> = Inr (None, res'')
   \<and> (\<exists>data sg. w_Body res' = w_Body ex_writer @ data
         \<and> sg = ed25519_sign ex_senv (PrivateKey ex_handler) data
         \<and> Inr (Header_Get (w_Header res') ''X-ProfileFed-Sig'') = (Inr sg :: string + bytes)
         \<and> ex_verify (ex_public (PrivateKey ex_handler)) data sg)
   \<and> (\<exists>data sg. w_Body res'' = w_Body ex_writer @ data
         \<and> sg = ed25519_sign ex_senv (sih_PrivateKey ex_sih) data
         \<and> Inr (Header_Get (w_Header res'') ''X-ProfileFed-Sig'') = (Inr sg :: string + bytes)
         \<and> ex_verify (ex_public (sih_PrivateKey ex_sih)) data sg)"
proof -
  have b64: "\<forall>x. (Inr (base64_EncodeToString ex_senv x) :: string + bytes) = Inr x"
    by (simp add: ex_senv_def)
  have crypto: "\<forall>k m. ex_verify (ex_public k) m (ed25519_sign ex_senv k m)"
    by (simp add: ex_senv_def ex_verify_def ex_sign_def)
  obtain res' where 1:
    "Handler_ServeHTTP ex_senv ex_handler ex_writer \<lparr>r_Query = []\<rparr> = Inr (None, res')"
    by (simp add: Handler_ServeHTTP_def ex_senv_def ex_handler_def ex_writer_def values_Get_def
        ed25519_Sign_def PrivateKeySize_def SK2_def Write_def Let_def)
  obtain res'' where 2:
    "ServerInfoHandler_ServeHTTP ex_senv ex_sih ex_writer \<lparr>r_Query = []\<rparr> = Inr (None, res'')"
    by (simp add: ServerInfoHandler_ServeHTTP_def ex_senv_def ex_sih_def ex_writer_def
        ed25519_Sign_def PrivateKeySize_def SK2_def Write_def Let_def)
  from handlers_sign_the_bytes_written
    [where dec = "Inr :: string \<Rightarrow> string + bytes" and se = ex_senv and vfy = ex_verify
      and pub = ex_public and h = ex_handler and res = ex_writer
      and req = "\<lparr>r_Query = []\<rparr>" and res' = res' and sih = ex_sih and res'' = res'',
      OF b64 crypto] 1 2
  show ?thesis by blast
qed

section \<open>The store during a lookup\<close>

lemmas client_defs =
  lookup_def checkProfile_def LinkByType_def getKey_def firstContact_def getServerInfo_def
  checkResp_def getSignature_def Header_Get_def readAllLimited_def responseSizeLimit_def
  getPrevSignatures_def ed25519_Verify_def PublicKeySize_def profileURL_def fetchProfile_def
  rotation_def json_Unmarshal_dest_def values_Set_def

lemmas ex_defs =
  ex_world_def ex_env_def ex_net_def ex_response_def ex_url_Parse_def ex_url_String_def
  ex_url_Encode_def ex_unmarshal_def ex_verify_def ex_wfdesc_def ex_info_def K1_def K2_def

lemmas store_defs =
  DefaultClient_def DefaultClient_SavePubkey_def DefaultClient_GetPubkey_def
  sync_Map_Load_def sync_Map_Store_def sync_Map_Delete_def

lemma firstContact_store:
  assumes "firstContact c e n u s = (r, s')" and "s' \<noteq> s"
  shows "(\<exists>names key. SavePubkey c (Host u) names key s = (None, s') \<and> r = Inr key)
       \<or> (\<exists>names key err. SavePubkey c (Host u) names key s = (Some err, s') \<and> r = Inl err)"
  using assms
  apply (simp add: firstContact_def
      split: sum.split_asm option.split_asm prod.split_asm if_split_asm)
  apply blast+
  done

lemma rotation_store:
  assumes "rotation c e n u pk body sg s = (r, s')" and "s' \<noteq> s"
  shows "(\<exists>names key. SavePubkey c (Host u) names key s = (None, s')
            \<and> r = (case ed25519_Verify e key body sg of
                   Inl p \<Rightarrow> Some p
                 | Inr ok \<Rightarrow> if ok then None else Some ErrSignatureMismatch))
       \<or> (\<exists>names key err. SavePubkey c (Host u) names key s = (Some err, s') \<and> r = Some err)"
  using assms
  apply (simp add: rotation_def
      split: sum.split_asm option.split_asm prod.split_asm if_split_asm bool.split_asm)
  apply (blast | force)+
  done

lemma getKey_store:
  assumes "getKey c e n u s = (r, s')" and "s' \<noteq> s"
  shows "(\<exists>names key. SavePubkey c (Host u) names key s = (None, s')
             \<and> r = Inr (key, True, Suc n))
       \<or> (\<exists>names key err. SavePubkey c (Host u) names key s = (Some err, s') \<and> r = Inl err)"
  using assms
  apply (simp add: getKey_def
      split: sum.split_asm option.split_asm prod.split_asm if_split_asm)
  apply (drule (1) firstContact_store, blast)+
  done

lemma getKey_same:
  assumes "getKey c e n u s = (Inr (pk, saved, n1), s)" and "\<not> saved"
  shows "n1 = n"
  using assms
  by (simp add: getKey_def split: sum.split_asm option.split_asm prod.split_asm if_split_asm)

lemma fetchProfile_err: "fetchProfile e n u \<noteq> Inl ErrSignatureMismatch"
  by (auto simp: fetchProfile_def checkResp_def readAllLimited_def getSignature_def Let_def
      split: sum.splits option.splits if_splits)

lemma json_Unmarshal_dest_err: "json_Unmarshal_dest e d dst \<noteq> Inl ErrSignatureMismatch"
  by (auto simp: json_Unmarshal_dest_def split: sum.splits dest.splits)

lemma ed25519_Verify_err: "ed25519_Verify e pk m sg \<noteq> Inl ErrSignatureMismatch"
  by (simp add: ed25519_Verify_def)


lemma verify_length:
  "ed25519_Verify e pk m sg = Inr b \<Longrightarrow> length pk = PublicKeySize"
  by (auto simp: ed25519_Verify_def split: if_splits)

lemma checkProfile_saved:
  assumes "checkProfile c e n u pk True body sg dest s1 = (Inl ErrSignatureMismatch, s')"
  shows "s' = s1 \<and> ed25519_Verify e pk body sg = Inr False"
  using assms
  by (simp add: checkProfile_def ed25519_Verify_err json_Unmarshal_dest_err
      split: sum.split_asm bool.split_asm)

lemma checkProfile_rotation:
  assumes "checkProfile c e n u pk False body sg dest s1 = (Inl ErrSignatureMismatch, s')"
    and "s' \<noteq> s1"
  shows "rotation c e n u pk body sg s1 = (Some ErrSignatureMismatch, s')"
proof -
  obtain r s2 where r: "rotation c e n u pk body sg s1 = (r, s2)"
    by (cases "rotation c e n u pk body sg s1")
  from assms have v: "ed25519_Verify e pk body sg = Inr False"
    by (simp add: checkProfile_def split: sum.split_asm bool.split_asm)
  from assms(1) show ?thesis
    by (simp add: checkProfile_def v r json_Unmarshal_dest_err split: option.split_asm)
qed

lemma checkProfile_mismatch:
  assumes "checkProfile c e n u pk False body sg dest s1 = (Inl ErrSignatureMismatch, s')"
    and "s' \<noteq> s1"
  shows "\<exists>names key. SavePubkey c (Host u) names key s1 = (Some ErrSignatureMismatch, s')
           \<or> SavePubkey c (Host u) names key s1 = (None, s')
             \<and> ed25519_Verify e key body sg = Inr False"
proof -
  note r = checkProfile_rotation [OF assms]
  from rotation_store [OF r assms(2)] show ?thesis
  proof (elim disjE exE conjE)
    fix names key
    assume a: "SavePubkey c (Host u) names key s1 = (None, s')"
      and b: "Some ErrSignatureMismatch =
        (case ed25519_Verify e key body sg of Inl p \<Rightarrow> Some p
         | Inr ok \<Rightarrow> if ok then None else Some ErrSignatureMismatch)"
    from b have "ed25519_Verify e key body sg = Inr False"
      by (cases "ed25519_Verify e key body sg") (auto simp: ed25519_Verify_def split: if_split_asm)
    with a show ?thesis by blast
  next
    fix names key err
    assume "SavePubkey c (Host u) names key s1 = (Some err, s')"
      and "Some ErrSignatureMismatch = Some err"
    then show ?thesis by blast
  qed
qed

lemma lookup_unfold:
  assumes "LinkByType wfdesc ''application/x-pfd+json'' = (pfdLink, True)"
    and "url_Parse e (Href pfdLink) = Inr u"
    and "getKey c e n u s = (Inr (pk, saved, n1), s1)"
    and "fetchProfile e n1 (url_String e (profileURL e u ident all)) = Inr (body, sg)"
  shows "lookup c e n wfdesc ident all dest s =
           checkProfile c e (Suc n1) (profileURL e u ident all) pk saved body sg dest s1"
  using assms by (simp add: lookup_def Let_def)

text \<open>
  C3, as the code has it.  A lookup calls \<open>SavePubkey\<close> at most once.  When it returns
  \<^verbatim>\<open>ErrSignatureMismatch\<close>, either the store is unchanged, or the store is the one
  left by that one call for the host of the profile URL, and then either the call
  itself returned that error, or it succeeded and the key it saved (at first contact
  or in the rotation) does not verify the profile that was fetched.
\<close>

theorem lookup_mismatch_store:
  assumes "lookup c e n wfdesc ident all dest s = (Inl ErrSignatureMismatch, s')"
  shows "s' = s
    \<or> (\<exists>u names key.
          url_Parse e (Href (fst (LinkByType wfdesc ''application/x-pfd+json''))) = Inr u
        \<and> (SavePubkey c (Host u) names key s = (Some ErrSignatureMismatch, s')
           \<or> SavePubkey c (Host u) names key s = (None, s')
             \<and> (\<exists>n1 body sg.
                   fetchProfile e n1 (url_String e (profileURL e u ident all)) = Inr (body, sg)
                 \<and> ed25519_Verify e key body sg = Inr False)))"
proof (cases "s' = s")
  case True
  then show ?thesis by simp
next
  case False
  obtain pfdLink ok where l: "LinkByType wfdesc ''application/x-pfd+json'' = (pfdLink, ok)"
    by (cases "LinkByType wfdesc ''application/x-pfd+json''")
  from assms l False have ok: ok
    by (auto simp: lookup_def split: if_split_asm)
  from assms l ok False obtain u where u: "url_Parse e (Href pfdLink) = Inr u"
    by (cases "url_Parse e (Href pfdLink)") (auto simp: lookup_def)
  have hu: "Host (profileURL e u ident all) = Host u"
    by (simp add: profileURL_def Let_def)
  obtain r1 s1 where k: "getKey c e n u s = (r1, s1)"
    by (cases "getKey c e n u s")
  show ?thesis
  proof (cases r1)
    case (Inl err)
    with assms l ok u k have "err = ErrSignatureMismatch" "s1 = s'"
      by (simp_all add: lookup_def)
    with getKey_store [OF k] False Inl l u show ?thesis
      by auto
  next
    case (Inr t)
    then obtain pk saved n1 where t: "r1 = Inr (pk, saved, n1)"
      by (cases t) auto
    show ?thesis
    proof (cases "fetchProfile e n1 (url_String e (profileURL e u ident all))")
      case (Inl err)
      with assms l ok u k t False have "err = ErrSignatureMismatch"
        by (simp add: lookup_def Let_def)
      with Inl show ?thesis by (simp add: fetchProfile_err)
    next
      case (Inr bs)
      then obtain body sg where
        f: "fetchProfile e n1 (url_String e (profileURL e u ident all)) = Inr (body, sg)"
        by (cases bs) auto
      from l ok have l': "LinkByType wfdesc ''application/x-pfd+json'' = (pfdLink, True)"
        by simp
      from k t have k': "getKey c e n u s = (Inr (pk, saved, n1), s1)" by simp
      note cp = assms [unfolded lookup_unfold [OF l' u k' f]]
      show ?thesis
      proof (cases saved)
        case True
        with cp have "s' = s1 \<and> ed25519_Verify e pk body sg = Inr False"
          using checkProfile_saved [of c e "Suc n1" "profileURL e u ident all" pk body sg dest
              s1 s'] by simp
        then have a: "s' = s1" and b: "ed25519_Verify e pk body sg = Inr False"
          by simp_all
        from a False have "s1 \<noteq> s" by simp
        from getKey_store [OF k' this] a b f l u show ?thesis
          by auto
      next
        case nsaved: False
        show ?thesis
        proof (cases "s1 = s")
          case True
          with cp nsaved False
          have "\<exists>names key. SavePubkey c (Host u) names key s = (Some ErrSignatureMismatch, s')
           \<or> SavePubkey c (Host u) names key s = (None, s')
             \<and> ed25519_Verify e key body sg = Inr False"
            using checkProfile_mismatch [of c e "Suc n1" "profileURL e u ident all" pk body sg
                dest s s'] by (simp add: hu)
          with f l u show ?thesis by auto
        next
          case False
          from getKey_store [OF k' False] nsaved show ?thesis by auto
        qed
      qed
    qed
  qed
qed

theorem lookup_mismatch_store_witness:
  "[''b.example'' \<mapsto> K2] = Map.empty
   \<or> (\<exists>u names key.
          url_Parse (ex_world (K2 @ ''INFO'') [] [] ''tampered'')
            (Href (fst (LinkByType ex_wfdesc ''application/x-pfd+json''))) = Inr u
        \<and> (SavePubkey DefaultClient (Host u) names key Map.empty
              = (Some ErrSignatureMismatch, [''b.example'' \<mapsto> K2])
           \<or> SavePubkey DefaultClient (Host u) names key Map.empty
              = (None, [''b.example'' \<mapsto> K2])
             \<and> (\<exists>n1 body sg.
                   fetchProfile (ex_world (K2 @ ''INFO'') [] [] ''tampered'') n1
                     (url_String (ex_world (K2 @ ''INFO'') [] [] ''tampered'')
                        (profileURL (ex_world (K2 @ ''INFO'') [] [] ''tampered'') u [] False))
                     = Inr (body, sg)
                 \<and> ed25519_Verify (ex_world (K2 @ ''INFO'') [] [] ''tampered'') key body sg
                     = Inr False)))"
proof -
  have h: "lookup DefaultClient (ex_world (K2 @ ''INFO'') [] [] ''tampered'')
      0 ex_wfdesc [] False DestDescriptor Map.empty
    = (Inl ErrSignatureMismatch, [''b.example'' \<mapsto> K2])"
    by (simp add: client_defs ex_defs store_defs)
  from lookup_mismatch_store [OF h] show ?thesis .
qed

text \<open>
  C3 as stated fails at first contact: the key the server advertises is saved, the
  profile does not verify under it, and the lookup returns \<^verbatim>\<open>ErrSignatureMismatch\<close>
  with the key in the store.
\<close>

theorem first_contact_mismatch_changes_store_counterexample:
  "lookup DefaultClient (ex_world (K2 @ ''INFO'') [] [] ''forged'')
     0 ex_wfdesc [] False DestDescriptor Map.empty
   = (Inl ErrSignatureMismatch, [''b.example'' \<mapsto> K2])
   \<and> [''b.example'' \<mapsto> K2] \<noteq> Map.empty"
  by (simp add: client_defs ex_defs store_defs)

section \<open>Rotation\<close>

lemma continuity_none:
  assumes "length pk = PublicKeySize"
    and "\<not> (\<exists>ps \<in> set sigs. ed25519_verify e pk body ps)"
  shows "continuity e pk body sigs = Inr False"
  using assms by (induction sigs) (auto simp: ed25519_Verify_def)

lemma rotation_no_continuity:
  assumes "ed25519_Verify e pk body sg = Inr False"
    and "getServerInfo e n (Scheme u) (Host u) = Inr (info_body, info_sig, prev_sigs)"
    and "json_Unmarshal_info e info_body = Inr info"
    and "base64_DecodeString e (PublicKey info) = Inr new_pk"
    and "\<not> (\<exists>ps \<in> set prev_sigs. ed25519_verify e pk info_body ps)"
  shows "rotation c e n u pk body sg s = (Some ErrSignatureMismatch, s)"
  using assms continuity_none [OF verify_length [OF assms(1)] assms(5)]
  by (simp add: rotation_def)

lemma profileURL_fields:
  "Scheme (profileURL e u ident all) = Scheme u" "Host (profileURL e u ident all) = Host u"
  by (simp_all add: profileURL_def Let_def)

text \<open>
  C5.  The key \<open>pk\<close> is the one the store holds for the host (so it was not saved in
  this lookup) and it does not verify the profile.  When none of the decoded
  \<^verbatim>\<open>X-ProfileFed-Previous\<close> signatures of the re-fetched server info verifies the body
  of the server info under \<open>pk\<close>, the lookup returns \<^verbatim>\<open>ErrSignatureMismatch\<close> and
  leaves the store as it was, whatever key the server info advertises.
\<close>

theorem rotation_needs_continuity:
  assumes link: "LinkByType wfdesc ''application/x-pfd+json'' = (pfdLink, True)"
    and url: "url_Parse e (Href pfdLink) = Inr u"
    and stored: "GetPubkey c (Host u) s = Inr pk"
    and profile: "fetchProfile e n (url_String e (profileURL e u ident all)) = Inr (body, sg)"
    and mismatch: "ed25519_Verify e pk body sg = Inr False"
    and info: "getServerInfo e (Suc n) (Scheme u) (Host u) = Inr (info_body, info_sig, prev_sigs)"
    and json: "json_Unmarshal_info e info_body = Inr info"
    and key: "base64_DecodeString e (PublicKey info) = Inr new_pk"
    and nocont: "\<not> (\<exists>ps \<in> set prev_sigs. ed25519_verify e pk info_body ps)"
  shows "lookup c e n wfdesc ident all dest s = (Inl ErrSignatureMismatch, s)"
proof -
  have k: "getKey c e n u s = (Inr (pk, False, n), s)"
    using stored by (simp add: getKey_def)
  have r: "rotation c e (Suc n) (profileURL e u ident all) pk body sg s
             = (Some ErrSignatureMismatch, s)"
    using rotation_no_continuity [of e pk body sg "Suc n" "profileURL e u ident all"
        info_body info_sig prev_sigs info new_pk c s]
      mismatch info json key nocont
    by (simp add: profileURL_fields)
  show ?thesis
    unfolding lookup_unfold [OF link url k profile]
    using mismatch r by (simp add: checkProfile_def)
qed

theorem rotation_needs_continuity_witness:
  "lookup DefaultClient (ex_world (K2 @ ''INFO'') [] [] (K2 @ ''PROFILE''))
     0 ex_wfdesc [] False DestDescriptor [''b.example'' \<mapsto> K1]
   = (Inl ErrSignatureMismatch, [''b.example'' \<mapsto> K1])"
  by (rule rotation_needs_continuity
      [where pfdLink = "\<lparr>Rel = ''self'', Type = ''application/x-pfd+json'',
                Href = ''http://b.example/pfd''\<rparr>"
        and u = "\<lparr>Scheme = ''http'', Host = ''b.example'', Path = ''/pfd'', RawQuery = []\<rparr>"
        and pk = K1 and body = "''PROFILE''" and sg = "K2 @ ''PROFILE''"
        and info_body = "''INFO''" and info_sig = "K2 @ ''INFO''" and prev_sigs = "[]"
        and info = "ex_info []" and new_pk = K2])
    (simp_all add: client_defs ex_defs store_defs)

lemma rotation_self_check_as_coded:
  assumes "getServerInfo e n (Scheme u) (Host u) = Inr (info_body, info_sig, prev_sigs)"
    and "json_Unmarshal_info e info_body = Inr info"
    and "base64_DecodeString e (PublicKey info) = Inr new_pk"
    and "continuity e pk info_body prev_sigs = Inr True"
    and "length new_pk = PublicKeySize"
    and "\<not> ed25519_verify e new_pk info_sig info_body"
  shows "rotation c e n u pk body sg s = (Some ErrSignatureMismatch, s)"
  using assms by (simp add: rotation_def ed25519_Verify_def)

text \<open>
  C1, evaluated on the rotation of scenario E3.  The store holds \<open>K1\<close> for the host;
  the profile is signed with \<open>K2\<close>; the server info advertises \<open>K2\<close>, is signed with
  \<open>K2\<close> and carries a previous signature made with \<open>K1\<close>.  The continuity signature
  verifies and the advertised key verifies the body of the server info against the
  signature of the header, yet the lookup returns \<^verbatim>\<open>ErrSignatureMismatch\<close> and saves
  nothing: the code verifies with the signature in the place of the message and the
  body in the place of the signature.  The second copy of the client does the same.
\<close>

theorem rotation_self_check_inverted:
  "ex_verify K1 ''INFO'' (K1 @ ''INFO'')
   \<and> ex_verify K2 ''INFO'' (K2 @ ''INFO'')
   \<and> ex_verify K2 ''PROFILE'' (K2 @ ''PROFILE'')
   \<and> lookup DefaultClient (ex_world (K2 @ ''INFO'') [K1 @ ''INFO''] [] (K2 @ ''PROFILE''))
       0 ex_wfdesc [] False DestDescriptor [''b.example'' \<mapsto> K1]
     = (Inl ErrSignatureMismatch, [''b.example'' \<mapsto> K1])
   \<and> Lookup_alt DefaultClient (ex_world (K2 @ ''INFO'') [K1 @ ''INFO''] [] (K2 @ ''PROFILE''))
       ''alice@b.example'' [''b.example'' \<mapsto> K1]
     = (Inl ErrSignatureMismatch, [''b.example'' \<mapsto> K1])"
  by (simp add: client_defs ex_defs store_defs Lookup_alt_def getKey_alt_def
      checkProfile_alt_def rotation_alt_def serverInfoReq_def continuity.simps
      LookupAcct_def wf_Lookup_def strings_Cut_def strings_HasPrefix_def)

section \<open>First contact\<close>

text \<open>
  C10.  At first contact (the store has no key for the host), when the server info
  answers 200, its header \<^verbatim>\<open>X-ProfileFed-Sig\<close> is present and decodes, its body
  decodes to a document with no previous names and its key decodes to \<open>pk\<close>, the key
  \<open>pk\<close> is saved for the host and becomes the key of the lookup, marked as just saved:
  this holds for every value of the signature and for every verification function
  \<open>v\<close>, so nothing is verified on the way.  The lookup then goes on to fetch the
  profile and to check it under \<open>pk\<close>.
\<close>

theorem first_contact_installs_unverified_key:
  assumes link: "LinkByType wfdesc ''application/x-pfd+json'' = (pfdLink, True)"
    and url: "url_Parse e (Href pfdLink) = Inr u"
    and miss: "GetPubkey c (Host u) s = Inl err" "errors_Is err ErrPubkeyNotFound"
    and get: "http_Get e n (url_String e \<lparr>Scheme = Scheme u, Host = Host u,
                 Path = ''/_profilefed/server'', RawQuery = []\<rparr>) = Inr res"
    and ok: "StatusCode res = 200"
    and sigp: "Header_Get (Header res) ''X-ProfileFed-Sig'' \<noteq> []"
    and sigd: "base64_DecodeString e (Header_Get (Header res) ''X-ProfileFed-Sig'') = Inr sg"
    and body: "readAllLimited res = Inr data"
    and json: "json_Unmarshal_info e data = Inr info"
    and noprev: "PreviousNames info = []"
    and key: "base64_DecodeString e (PublicKey info) = Inr pk"
    and save: "SavePubkey c (Host u) [] pk s = (None, s')"
  shows "getKey c (e\<lparr>ed25519_verify := v\<rparr>) n u s = (Inr (pk, True, Suc n), s')
       \<and> lookup c e n wfdesc ident all dest s =
           (case fetchProfile e (Suc n) (url_String e (profileURL e u ident all)) of
              Inl err \<Rightarrow> (Inl err, s')
            | Inr (profile, psig) \<Rightarrow>
                checkProfile c e (Suc (Suc n)) (profileURL e u ident all) pk True profile psig
                  dest s')"
proof -
  have gsi: "getServerInfo (e\<lparr>ed25519_verify := w\<rparr>) n (Scheme u) (Host u)
        = Inr (data, sg, getPrevSignatures e res)" for w
  proof -
    have "getPrevSignatures (e\<lparr>ed25519_verify := w\<rparr>) res = getPrevSignatures e res"
    proof -
      have "decodeSigs (e\<lparr>ed25519_verify := w\<rparr>) xs = decodeSigs e xs" for xs
        by (induction xs) (simp_all split: sum.splits)
      then show ?thesis by (simp add: getPrevSignatures_def)
    qed
    with get ok sigp sigd body show ?thesis
      by (simp add: getServerInfo_def checkResp_def getSignature_def Let_def)
  qed
  have fc: "firstContact c (e\<lparr>ed25519_verify := w\<rparr>) n u s = (Inr pk, s')" for w
    using gsi [of w] json noprev key save by (simp add: firstContact_def)
  have gk: "getKey c (e\<lparr>ed25519_verify := w\<rparr>) n u s = (Inr (pk, True, Suc n), s')" for w
    using miss fc [of w] by (simp add: getKey_def)
  from gk [of "ed25519_verify e"] have gk0: "getKey c e n u s = (Inr (pk, True, Suc n), s')"
    by simp
  from link url gk0 gk [of v] show ?thesis
    by (simp add: lookup_def Let_def)
qed

theorem first_contact_installs_unverified_key_witness:
  "getKey DefaultClient
     ((ex_world ''garbage'' [] [] (K2 @ ''PROFILE''))\<lparr>ed25519_verify := (\<lambda>pk m sg. False)\<rparr>)
     0 \<lparr>Scheme = ''http'', Host = ''b.example'', Path = ''/pfd'', RawQuery = []\<rparr> Map.empty
   = (Inr (K2, True, Suc 0), [''b.example'' \<mapsto> K2])
   \<and> lookup DefaultClient (ex_world ''garbage'' [] [] (K2 @ ''PROFILE''))
       0 ex_wfdesc [] False DestDescriptor Map.empty
     = (Inr (One ex_desc), [''b.example'' \<mapsto> K2])"
proof -
  let ?e = "ex_world ''garbage'' [] [] (K2 @ ''PROFILE'')"
  let ?u = "\<lparr>Scheme = ''http'', Host = ''b.example'', Path = ''/pfd'', RawQuery = []\<rparr>"
  have link: "LinkByType ex_wfdesc ''application/x-pfd+json'' =
      (\<lparr>Rel = ''self'', Type = ''application/x-pfd+json'', Href = ''http://b.example/pfd''\<rparr>,
       True)"
    by (simp add: client_defs ex_defs)
  have url: "url_Parse ?e (Href \<lparr>Rel = ''self'', Type = ''application/x-pfd+json'',
        Href = ''http://b.example/pfd''\<rparr>) = Inr ?u"
    by (simp add: ex_defs)
  have miss: "GetPubkey DefaultClient (Host ?u) Map.empty = Inl ErrPubkeyNotFound"
    by (simp add: store_defs)
  have isnf: "errors_Is ErrPubkeyNotFound ErrPubkeyNotFound" by simp
  have get: "http_Get ?e 0 (url_String ?e \<lparr>Scheme = Scheme ?u, Host = Host ?u,
        Path = ''/_profilefed/server'', RawQuery = []\<rparr>) = Inr (ex_response ''INFO'' ''garbage'' [])"
    by (simp add: ex_defs)
  have ok: "StatusCode (ex_response ''INFO'' ''garbage'' []) = 200"
    by (simp add: ex_defs)
  have sigp: "Header_Get (Header (ex_response ''INFO'' ''garbage'' [])) ''X-ProfileFed-Sig'' \<noteq> []"
    by (simp add: ex_defs Header_Get_def)
  have sigd: "base64_DecodeString ?e
      (Header_Get (Header (ex_response ''INFO'' ''garbage'' [])) ''X-ProfileFed-Sig'')
      = Inr ''garbage''"
    by (simp add: ex_defs Header_Get_def)
  have body: "readAllLimited (ex_response ''INFO'' ''garbage'' []) = Inr ''INFO''"
    by (simp add: ex_defs client_defs)
  have json: "json_Unmarshal_info ?e ''INFO'' = Inr (ex_info [])"
    by (simp add: ex_defs)
  have noprev: "PreviousNames (ex_info []) = []" by (simp add: ex_defs)
  have key: "base64_DecodeString ?e (PublicKey (ex_info [])) = Inr K2" by (simp add: ex_defs)
  have save: "SavePubkey DefaultClient (Host ?u) [] K2 Map.empty = (None, [''b.example'' \<mapsto> K2])"
    by (simp add: store_defs)
  from first_contact_installs_unverified_key
    [OF link url miss isnf get ok sigp sigd body json noprev key save,
      of "\<lambda>pk m sg. False" "[]" False DestDescriptor]
  show ?thesis
    by (simp add: client_defs ex_defs)
qed

text \<open>
  The second copy of the client installs the key in the same way, without reading the
  signature header at all.
\<close>

lemma getKey_alt_installs_unverified_key:
  assumes miss: "GetPubkey c (Host u) s = Inl err" "errors_Is err ErrPubkeyNotFound"
    and info: "getServerInfo_alt e n (Scheme u) (Host u) = Inr (info, prevSigs)"
    and key: "base64_DecodeString e (PublicKey info) = Inr pk"
    and save: "SavePubkey c (Host u) (PreviousNames info) pk s = (None, s')"
  shows "getKey_alt c e n u s = (Inr (pk, True, Suc n), s')"
  using assms by (simp add: getKey_alt_def)

text \<open>
  The rename audit in general: once the key stored for a previous name fails on the
  signature of the header, the audit returns \<^verbatim>\<open>ErrSignatureMismatch\<close> whatever the
  previous signatures are.
\<close>

lemma prevSigLoop_no_panic:
  "length pk = PublicKeySize \<Longrightarrow> prevSigLoop e pk data sigs = None"
  by (induction sigs) (simp_all add: ed25519_Verify_def split: bool.splits)

lemma renameAudit_previous_signature_ignored:
  assumes "GetPubkey c prevName s = Inr old_pk"
    and "ed25519_Verify e old_pk data sg = Inr False"
  shows "renameAudit c e (prevName # rest) data sg prevSigs s = Some ErrSignatureMismatch"
  using assms prevSigLoop_no_panic [OF verify_length [OF assms(2)]]
  by simp

text \<open>
  C2, evaluated on the rename of scenario E5.  The store holds \<open>K1\<close> for
  \<open>a.example\<close>; the server info of \<open>b.example\<close> lists \<open>a.example\<close> as a previous
  name, is signed with \<open>K2\<close> and carries a previous signature made with \<open>K1\<close>, which
  verifies the body under \<open>K1\<close>.  The lookup returns \<^verbatim>\<open>ErrSignatureMismatch\<close> all the
  same and saves nothing.
\<close>

theorem rename_audit_ignores_previous_signature:
  "ex_verify K1 ''INFO'' (K1 @ ''INFO'')
   \<and> lookup DefaultClient
       (ex_world (K2 @ ''INFO'') [K1 @ ''INFO''] [''a.example''] (K2 @ ''PROFILE''))
       0 ex_wfdesc [] False DestDescriptor [''a.example'' \<mapsto> K1]
     = (Inl ErrSignatureMismatch, [''a.example'' \<mapsto> K1])"
  by (simp add: client_defs ex_defs store_defs)

section \<open>The role of a descriptor\<close>

text \<open>
  The second copy of the client does set the role: a descriptor returned by its
  \<^verbatim>\<open>Lookup\<close> never has the empty role.
\<close>

lemma decodeDescriptor_alt_role:
  "decodeDescriptor_alt e data = Inr d \<Longrightarrow> Role d \<noteq> []"
  by (auto simp: decodeDescriptor_alt_def RoleUser_def split: sum.split_asm if_split_asm)

lemma checkProfile_alt_role:
  assumes "checkProfile_alt c e n u pk saved data sg s = (Inr d, s')"
  shows "Role d \<noteq> []"
proof -
  have "decodeDescriptor_alt e data = Inr d"
    using assms
    by (simp add: checkProfile_alt_def
        split: sum.split_asm bool.split_asm if_split_asm prod.split_asm option.split_asm)
  then show ?thesis by (rule decodeDescriptor_alt_role)
qed

lemma Lookup_alt_role:
  assumes "Lookup_alt c e ident s = (Inr d, s')"
  shows "Role d \<noteq> []"
  using assms
  by (auto simp: Lookup_alt_def split: sum.split_asm prod.split_asm if_split_asm
      dest: checkProfile_alt_role)

text \<open>
  C4, evaluated on the first contact of scenario E1.  The profile on the wire has the
  empty role, the signatures verify, and each of \<^verbatim>\<open>Lookup\<close>, \<^verbatim>\<open>LookupID\<close>,
  \<^verbatim>\<open>LookupWebFinger\<close> and \<^verbatim>\<open>LookupWebFingerID\<close> succeeds with a descriptor whose
  role is still empty.
\<close>

theorem lookup_returns_empty_role:
  "Role ex_desc = []
   \<and> Lookup DefaultClient (ex_world (K2 @ ''INFO'') [] [] (K2 @ ''PROFILE''))
       ''alice@b.example'' Map.empty
     = (Inr (One ex_desc), [''b.example'' \<mapsto> K2])
   \<and> LookupID DefaultClient (ex_world (K2 @ ''INFO'') [] [] (K2 @ ''PROFILE''))
       ''alice@b.example'' ''a'' Map.empty
     = (Inr (One ex_desc), [''b.example'' \<mapsto> K2])
   \<and> LookupWebFinger DefaultClient (ex_world (K2 @ ''INFO'') [] [] (K2 @ ''PROFILE''))
       ex_wfdesc Map.empty
     = (Inr (One ex_desc), [''b.example'' \<mapsto> K2])
   \<and> LookupWebFingerID DefaultClient (ex_world (K2 @ ''INFO'') [] [] (K2 @ ''PROFILE''))
       ex_wfdesc ''a'' Map.empty
     = (Inr (One ex_desc), [''b.example'' \<mapsto> K2])"
  by (simp add: Lookup_def LookupID_def LookupWebFinger_def LookupWebFingerID_def
      LookupAcct_def wf_Lookup_def strings_Cut_def strings_HasPrefix_def
      client_defs ex_defs store_defs ex_desc_def)

end
